(* ===== verification/Prelude.thy ===== *)
theory Prelude
  imports Complex_Main "HOL-Library.Word"
begin

text \<open>
  Shared vocabulary of the ray-tracer development: the collections of
  rewrite rules the component theories fill, the error type of the program
  (every \<open>throw\<close> of the JavaScript sources is a constructor), the byte type
  of the RGBA pixel buffer, and generic lemmas on real arithmetic, square
  roots, options and list updates that the component proofs share.
\<close>

named_theorems vec_unfold "equations unfolding vector operations to their components"
named_theorems rt_eval "rewrite rules used to evaluate the model on concrete scenes"

section \<open>Errors raised by the program\<close>

text \<open>
  \<^item> \<open>ShapeAbstract\<close>: \<open>new Shape()\<close> (src/src/shape.js), a \<open>TypeError\<close>;
  \<^item> \<open>RadiusNotNumber\<close>, \<open>RadiusNotPositive\<close>: the two checks of the
    \<open>Sphere\<close> constructor (src/src/sphere.js);
  \<^item> \<open>ColorUndefined\<close>: reading \<open>color.x\<close> of an \<open>undefined\<close> trace
    result in \<open>render\<close> (src/src/main.js), a \<open>TypeError\<close>;
  \<^item> \<open>IndexSizeError\<close>: the \<open>DOMException\<close> of \<open>getImageData\<close> on a
    zero width or height (HTML standard), called by the start-up callback.
\<close>

datatype error = ShapeAbstract | RadiusNotNumber | RadiusNotPositive | ColorUndefined
  | IndexSizeError

type_synonym byte = "8 word"

section \<open>JavaScript truthiness of numbers\<close>

text \<open>
  \<open>v || d\<close> on a number that may be \<open>undefined\<close> (\<open>None\<close>): \<open>undefined\<close>
  and \<open>0\<close> are falsy and give the default. (NaN, also falsy, has no real
  counterpart.)
\<close>

fun js_or :: "real option \<Rightarrow> real \<Rightarrow> real" where
  "js_or None d = d"
| "js_or (Some v) d = (if v = 0 then d else v)"

text \<open>An object is always truthy: only \<open>undefined\<close> takes the default.\<close>

fun js_or_obj :: "'a option \<Rightarrow> 'a \<Rightarrow> 'a" where
  "js_or_obj None d = d"
| "js_or_obj (Some v) d = v"

section \<open>Generic lemmas\<close>

lemma js_or_nonzero [simp]: "d \<noteq> 0 \<Longrightarrow> js_or v d \<noteq> 0"
  by (cases v) auto

lemma sqrt_eq_numeral_sq [rt_eval]:
  "0 \<le> (b::real) \<Longrightarrow> a = b * b \<Longrightarrow> sqrt a = b"
  by simp

lemma sum_squares_eq_0_iff:
  "(a::real) * a + b * b + c * c = 0 \<longleftrightarrow> a = 0 \<and> b = 0 \<and> c = 0"
proof -
  have "0 \<le> a * a" "0 \<le> b * b" "0 \<le> c * c" by simp_all
  then show ?thesis by (auto simp: add_nonneg_eq_0_iff)
qed

lemma sum_squares_nonneg: "0 \<le> (a::real) * a + b * b + c * c"
  by (intro add_nonneg_nonneg) simp_all

text \<open>Byte addressing of an RGBA buffer: four bytes per pixel, pixels row by row.\<close>

lemma div_mod_decompose: "x < w \<Longrightarrow> (n = x + y * w) \<longleftrightarrow> (n mod w = x \<and> n div w = (y::nat))"
proof
  assume "x < w" and n: "n = x + y * w"
  then show "n mod w = x \<and> n div w = y" by simp
next
  assume "n mod w = x \<and> n div w = y"
  then show "n = x + y * w" by (metis mod_div_mult_eq)
qed

lemma quad_cases:
  "(j::nat) div 4 = m \<longleftrightarrow> j = 4 * m \<or> j = 4 * m + 1 \<or> j = 4 * m + 2 \<or> j = 4 * m + 3"
  by presburger

text \<open>
  Two runs of a deterministic step relation from the same state that both
  end in a state with no successor end in the same state.
\<close>

lemma right_unique_final_unique:
  assumes "right_unique r" and "r\<^sup>*\<^sup>* a b" and "\<nexists>c. r b c"
    and "r\<^sup>*\<^sup>* a b'" and "\<nexists>c. r b' c"
  shows "b = b'"
  using assms(2,4)
proof (induction rule: converse_rtranclp_induct)
  case base
  with assms(3) show ?case by (auto elim: converse_rtranclpE)
next
  case (step a a1)
  from \<open>r\<^sup>*\<^sup>* a b'\<close> show ?case
  proof (cases rule: converse_rtranclpE)
    case base
    with \<open>r a a1\<close> assms(5) show ?thesis by auto
  next
    case (step a2)
    with \<open>r a a1\<close> have "a2 = a1" using right_uniqueD [OF assms(1)] by blast
    with step show ?thesis by (rule_tac step.IH) simp
  qed
qed

lemma unat_byte_of_int:
  "0 \<le> k \<Longrightarrow> k < 256 \<Longrightarrow> real (unat (word_of_int k :: byte)) = real_of_int k"
proof -
  assume "0 \<le> k" "k < 256"
  then have "uint (word_of_int k :: byte) = k"
    by (simp add: uint_word_of_int_eq take_bit_int_eq_self)
  then show ?thesis by (simp add: unat_eq_nat_uint \<open>0 \<le> k\<close>)
qed

end
