(* ===== verification/Vector.thy ===== *)
theory Vector
  imports Prelude
begin

text \<open>
  The \<open>Vector\<close> class of src/src/vector.js: an immutable triple of numbers
  used as point, direction and RGB colour. The class becomes a datatype with
  one constructor and the selectors \<open>vx\<close>, \<open>vy\<close>, \<open>vz\<close> (the fields
  \<open>x\<close>, \<open>y\<close>, \<open>z\<close>); each method becomes a function taking \<open>this\<close> first.
  Numbers are real numbers: the rounding of IEEE doubles is not modelled, and
  HOL's \<open>1 / 0 = 0\<close> replaces JavaScript's \<open>Infinity\<close>, so that
  \<open>normalize\<close> of the zero vector is the zero vector here where the program
  produces NaN components; every lemma about \<open>normalize\<close> assumes a
  non-zero argument. The type is made an additive group whose operations are
  \<open>add\<close>, \<open>subtract\<close> and \<open>ZERO\<close>, so the library's algebra applies to it.
\<close>

datatype vector = Vector (vx: real) (vy: real) (vz: real)

section \<open>The constructor and the static constants\<close>

definition Vector_new :: "real option \<Rightarrow> real option \<Rightarrow> real option \<Rightarrow> vector" where
  "Vector_new x y z = Vector (js_or x 0) (js_or y 0) (js_or z 0)"

definition UP :: vector where
  "UP = Vector 0 1 0"

definition WHITE :: vector where
  "WHITE = Vector 255 255 255"

definition ZERO :: vector where
  "ZERO = Vector 0 0 0"

section \<open>The methods\<close>

definition add :: "vector \<Rightarrow> vector \<Rightarrow> vector" where
  "add this other = Vector (vx this + vx other) (vy this + vy other) (vz this + vz other)"

definition add3 :: "vector \<Rightarrow> vector \<Rightarrow> vector \<Rightarrow> vector" where
  "add3 this a b =
     Vector (vx this + vx a + vx b) (vy this + vy a + vy b) (vz this + vz a + vz b)"

definition crossProduct :: "vector \<Rightarrow> vector \<Rightarrow> vector" where
  "crossProduct this other =
     Vector (vy this * vz other - vz this * vy other)
            (vz this * vx other - vx this * vz other)
            (vx this * vy other - vy this * vx other)"

definition dotProduct :: "vector \<Rightarrow> vector \<Rightarrow> real" where
  "dotProduct this other = vx this * vx other + vy this * vy other + vz this * vz other"

definition length_vector :: "vector \<Rightarrow> real" where
  "length_vector this = sqrt (dotProduct this this)"

definition scale :: "vector \<Rightarrow> real \<Rightarrow> vector" where
  "scale this t = Vector (vx this * t) (vy this * t) (vz this * t)"

definition subtract :: "vector \<Rightarrow> vector \<Rightarrow> vector" where
  "subtract this other = Vector (vx this - vx other) (vy this - vy other) (vz this - vz other)"

definition normalize :: "vector \<Rightarrow> vector" where
  "normalize this = scale this (1 / length_vector this)"

definition reflectThrough :: "vector \<Rightarrow> vector \<Rightarrow> vector" where
  "reflectThrough this normal =
     (let d = scale normal (dotProduct this normal) in subtract (scale d 2) this)"

declare add_def [vec_unfold] add3_def [vec_unfold] crossProduct_def [vec_unfold]
  dotProduct_def [vec_unfold] scale_def [vec_unfold] subtract_def [vec_unfold]
  UP_def [vec_unfold] WHITE_def [vec_unfold] ZERO_def [vec_unfold]

section \<open>Vectors as an additive group\<close>

instantiation vector :: ab_group_add
begin

definition zero_vector_def: "0 = ZERO"
definition plus_vector_def: "a + b = add a b"
definition minus_vector_def: "a - b = subtract a b"
definition uminus_vector_def: "- a = subtract ZERO a"

instance
  by standard (simp_all add: zero_vector_def plus_vector_def minus_vector_def
      uminus_vector_def vec_unfold algebra_simps)

end

lemma vector_eq_iff: "a = b \<longleftrightarrow> vx a = vx b \<and> vy a = vy b \<and> vz a = vz b"
  by (cases a; cases b) simp

lemma vector_components [simp]:
  "vx (a + b) = vx a + vx b" "vy (a + b) = vy a + vy b" "vz (a + b) = vz a + vz b"
  "vx (a - b) = vx a - vx b" "vy (a - b) = vy a - vy b" "vz (a - b) = vz a - vz b"
  "vx (- a) = - vx a" "vy (- a) = - vy a" "vz (- a) = - vz a"
  "vx 0 = 0" "vy 0 = 0" "vz 0 = 0"
  by (simp_all add: zero_vector_def plus_vector_def minus_vector_def uminus_vector_def vec_unfold)

lemma add3_is_plus: "add3 a b c = a + b + c"
  by (simp add: vector_eq_iff add3_def)

lemma add_is_plus: "add a b = a + b"
  and subtract_is_minus: "subtract a b = a - b"
  and ZERO_is_zero: "ZERO = 0"
  by (simp_all add: plus_vector_def minus_vector_def zero_vector_def)

section \<open>Algebra of the dot product\<close>

lemma dot_comm: "dotProduct a b = dotProduct b a"
  by (simp add: dotProduct_def mult.commute)

lemma dot_simps [simp]:
  "dotProduct (a + b) c = dotProduct a c + dotProduct b c"
  "dotProduct c (a + b) = dotProduct c a + dotProduct c b"
  "dotProduct (a - b) c = dotProduct a c - dotProduct b c"
  "dotProduct c (a - b) = dotProduct c a - dotProduct c b"
  "dotProduct (scale a t) c = t * dotProduct a c"
  "dotProduct c (scale a t) = t * dotProduct c a"
  "dotProduct (- a) c = - dotProduct a c" "dotProduct c (- a) = - dotProduct c a"
  "dotProduct 0 c = 0" "dotProduct c 0 = 0"
  by (simp_all add: dotProduct_def scale_def algebra_simps)

lemma scale_components [simp]:
  "vx (scale a t) = vx a * t" "vy (scale a t) = vy a * t" "vz (scale a t) = vz a * t"
  by (simp_all add: scale_def)

lemma scale_uminus: "scale (- a) t = - scale a t"
  by (simp add: vector_eq_iff)

lemma normalize_uminus: "normalize (- a) = - normalize a"
  by (simp add: normalize_def length_vector_def scale_uminus)

lemma dot_self_nonneg [simp]: "0 \<le> dotProduct a a"
  by (simp add: dotProduct_def sum_squares_nonneg)

lemma dot_self_eq_0 [simp]: "dotProduct a a = 0 \<longleftrightarrow> a = 0"
  by (simp add: dotProduct_def sum_squares_eq_0_iff vector_eq_iff)

lemma dot_self_pos: "a \<noteq> 0 \<Longrightarrow> 0 < dotProduct a a"
  using dot_self_nonneg [of a] dot_self_eq_0 [of a] by linarith

lemma length_vector_nonneg [simp]: "0 \<le> length_vector a"
  by (simp add: length_vector_def)

lemma length_vector_sq: "length_vector a * length_vector a = dotProduct a a"
  by (simp add: length_vector_def)

lemma length_vector_pos: "a \<noteq> 0 \<Longrightarrow> 0 < length_vector a"
  by (simp add: length_vector_def dot_self_pos)

lemma length_vector_eq_1_iff: "length_vector a = 1 \<longleftrightarrow> dotProduct a a = 1"
  by (simp add: length_vector_def)

text \<open>Lagrange's identity links the two products of the class.\<close>

lemma lagrange_identity:
  "dotProduct a a * dotProduct b b =
     dotProduct a b * dotProduct a b + dotProduct (crossProduct a b) (crossProduct a b)"
  by (simp add: dotProduct_def crossProduct_def algebra_simps power2_eq_square)

lemma cauchy_schwarz: "dotProduct a b * dotProduct a b \<le> dotProduct a a * dotProduct b b"
  using lagrange_identity [of a b] dot_self_nonneg [of "crossProduct a b"] by linarith

lemma dot_normalize_left: "dotProduct (normalize a) b = dotProduct a b / length_vector a"
  by (simp add: normalize_def)

lemma dot_le_lengths: "dotProduct a b \<le> length_vector a * length_vector b"
proof -
  have "sqrt (dotProduct a b * dotProduct a b) \<le> sqrt (dotProduct a a * dotProduct b b)"
    using cauchy_schwarz [of a b] by (rule real_sqrt_le_mono)
  then have "\<bar>dotProduct a b\<bar> \<le> sqrt (dotProduct a a * dotProduct b b)"
    by (simp add: real_sqrt_abs2)
  then show ?thesis by (simp add: length_vector_def real_sqrt_mult)
qed

lemma dot_normalize_unit_le_1:
  assumes "a \<noteq> 0" and "length_vector n = 1"
  shows "dotProduct (normalize a) n \<le> 1"
proof -
  have "dotProduct a n \<le> length_vector a" using dot_le_lengths [of a n] assms(2) by simp
  with length_vector_pos [OF assms(1)] show ?thesis
    by (simp add: dot_normalize_left)
qed

lemma dot_cross_left [simp]: "dotProduct (crossProduct a b) a = 0"
  and dot_cross_right [simp]: "dotProduct (crossProduct a b) b = 0"
  by (simp_all add: dotProduct_def crossProduct_def algebra_simps)

lemma cross_of_orthogonal:
  "dotProduct a b = 0 \<Longrightarrow> dotProduct (crossProduct a b) (crossProduct a b) = dotProduct a a * dotProduct b b"
  using lagrange_identity [of a b] by simp

lemma dot_normalize_right: "dotProduct a (normalize b) = dotProduct a b / length_vector b"
  by (simp add: normalize_def)

lemma reflect_components: "reflectThrough v n = scale n (2 * dotProduct v n) - v"
  by (simp add: reflectThrough_def subtract_is_minus vector_eq_iff)

section \<open>Properties of the vector operations\<close>

lemma dot_normalize_self: "v \<noteq> 0 \<Longrightarrow> dotProduct (normalize v) (normalize v) = 1"
  by (simp add: normalize_def length_vector_sq)

text \<open>
  C33: \<open>normalize\<close> turns every non-zero vector into a unit vector, the
  length being the square root of the dot product with itself.
\<close>

theorem length_normalize: "v \<noteq> ZERO \<Longrightarrow> length_vector (normalize v) = 1"
  by (simp add: ZERO_is_zero length_vector_eq_1_iff dot_normalize_self)

theorem length_normalize_witness:
  "Vector 0 3 4 \<noteq> ZERO \<and> length_vector (normalize (Vector 0 3 4)) = 1"
  using length_normalize [of "Vector 0 3 4"] by (simp add: ZERO_def)

text \<open>
  The cross product is orthogonal to both of its arguments (the
  renderer relies on it to build the camera frame).
\<close>

theorem cross_orthogonal:
  "dotProduct (crossProduct a b) a = 0 \<and> dotProduct (crossProduct a b) b = 0"
  by simp

text \<open>
  C34: for a unit normal \<open>n\<close>, \<open>reflectThrough v n\<close> has the same component
  along \<open>n\<close> as \<open>v\<close> itself, not the opposite one: the method rotates
  \<open>v\<close> by half a turn about the normal axis instead of mirroring it in the
  surface plane.
\<close>

theorem reflect_normal_component:
  "length_vector n = 1 \<Longrightarrow> dotProduct (reflectThrough v n) n = dotProduct v n"
  by (simp add: reflect_components length_vector_eq_1_iff dot_comm [of n v])

theorem reflect_normal_component_witness:
  "length_vector UP = 1 \<and>
   dotProduct (reflectThrough (Vector 1 (-1) 0) UP) UP = dotProduct (Vector 1 (-1) 0) UP"
  using reflect_normal_component [of UP "Vector 1 (-1) 0"]
  by (simp add: length_vector_def UP_def dotProduct_def)

text \<open>Reflecting through a unit normal preserves the length of the vector.\<close>

theorem reflect_length:
  "length_vector n = 1 \<Longrightarrow> length_vector (reflectThrough v n) = length_vector v"
proof -
  assume "length_vector n = 1"
  then have n1: "dotProduct n n = 1" by (simp add: length_vector_eq_1_iff)
  have "dotProduct (reflectThrough v n) (reflectThrough v n) =
        4 * (dotProduct v n * dotProduct v n) * dotProduct n n
        - 4 * (dotProduct v n * dotProduct v n) + dotProduct v v"
    by (simp add: reflect_components dot_comm [of n v] algebra_simps)
  then have "dotProduct (reflectThrough v n) (reflectThrough v n) = dotProduct v v"
    by (simp add: n1)
  then show ?thesis by (simp add: length_vector_def)
qed

theorem reflect_length_witness:
  "length_vector UP = 1 \<and>
   length_vector (reflectThrough (Vector 1 (-1) 0) UP) = length_vector (Vector 1 (-1) 0)"
  using reflect_length [of UP "Vector 1 (-1) 0"]
  by (simp add: length_vector_def UP_def dotProduct_def)

text \<open>
  On the spec's own example, \<open>v = (1,-1,0)\<close> and \<open>n = (0,1,0)\<close>,
  \<open>reflectThrough\<close> returns \<open>(-1,-1,0)\<close>, the negation of the mirror
  reflection \<open>(1,1,0)\<close> that the specification expects.
\<close>

theorem reflect_spec_example: "reflectThrough (Vector 1 (-1) 0) UP = Vector (-1) (-1) 0"
  by (simp add: reflectThrough_def vec_unfold)

end
