(* ===== verification/Sphere.thy ===== *)
theory Sphere
  imports Vector
begin

text \<open>
  The \<open>Shape\<close> base class (src/src/shape.js) and its one subclass
  \<open>Sphere\<close> (src/src/sphere.js), with the ray objects \<open>{point, vector}\<close>
  that \<open>Sphere.intersection\<close> consumes (built in src/src/main.js). The
  constructor's arguments are JavaScript values that may be \<open>undefined\<close>
  (\<open>None\<close>); its \<open>||\<close> defaults and its two \<open>throw\<close>s are modelled as
  written. The lemmas characterise the constructor's errors, the invariant it
  establishes (a positive radius), and \<open>intersection\<close> as the least root of
  the ray-sphere equation.
\<close>

record ray =
  ray_point :: vector
  ray_vector :: vector

definition ray_at :: "ray \<Rightarrow> real \<Rightarrow> vector" where
  "ray_at r t = add (ray_point r) (scale (ray_vector r) t)"

section \<open>The abstract base class\<close>

text \<open>\<open>new.target\<close>: the class named in the \<open>new\<close> expression.\<close>

datatype new_target = Target_Shape | Target_Sphere

definition Shape_new :: "new_target \<Rightarrow> error + unit" where
  "Shape_new target = (if target = Target_Shape then Inl ShapeAbstract else Inr ())"

section \<open>Spheres\<close>

record sphere =
  point :: vector
  radius :: real
  color :: vector
  specular :: real
  lambert :: real
  ambient :: real

definition Sphere_new ::
  "vector option \<Rightarrow> real option \<Rightarrow> vector option \<Rightarrow> real option \<Rightarrow> real option \<Rightarrow>
   real option \<Rightarrow> error + sphere" where
  "Sphere_new point_arg radius_arg color_arg specular_arg lambert_arg ambient_arg =
     (case Shape_new Target_Sphere of
        Inl e \<Rightarrow> Inl e
      | Inr _ \<Rightarrow>
          (let this = \<lparr>point = js_or_obj point_arg (Vector_new None None None),
                       radius = js_or radius_arg 1,
                       color = js_or_obj color_arg (Vector_new None None None),
                       specular = js_or specular_arg 0.2,
                       lambert = js_or lambert_arg 0.7,
                       ambient = js_or ambient_arg 0.1\<rparr>
           in case radius_arg of
                None \<Rightarrow> Inl RadiusNotNumber
              | Some r \<Rightarrow> if r \<le> 0 then Inl RadiusNotPositive else Inr this))"

definition intersection :: "sphere \<Rightarrow> ray \<Rightarrow> real option" where
  "intersection this r =
     (let eyeToCenter = subtract (point this) (ray_point r);
          v = dotProduct eyeToCenter (ray_vector r);
          eyeToObjectCenter = dotProduct eyeToCenter eyeToCenter;
          discriminant = radius this * radius this - eyeToObjectCenter + v * v
      in if discriminant < 0 then None else Some (v - sqrt discriminant))"

definition normal :: "sphere \<Rightarrow> vector \<Rightarrow> vector" where
  "normal this position = normalize (subtract position (point this))"

text \<open>The points of the sphere's surface: the specification of \<open>intersection\<close>.\<close>

definition on_surface :: "sphere \<Rightarrow> vector \<Rightarrow> bool" where
  "on_surface s p \<longleftrightarrow>
     dotProduct (subtract p (point s)) (subtract p (point s)) = radius s * radius s"

section \<open>The surface equation along a ray\<close>

lemma ray_at_minus_center:
  "ray_at r t - point s = scale (ray_vector r) t - (point s - ray_point r)"
  unfolding ray_at_def add_is_plus by (simp add: algebra_simps)

lemma dot_line: "dotProduct (scale d t - w) (scale d t - w) =
   t * t * dotProduct d d - 2 * t * dotProduct w d + dotProduct w w"
  by (simp add: dot_comm [of d w] algebra_simps)

lemma on_surface_ray_at:
  assumes "length_vector (ray_vector r) = 1"
  shows "on_surface s (ray_at r t) \<longleftrightarrow>
    (t - dotProduct (point s - ray_point r) (ray_vector r))\<^sup>2 =
    radius s * radius s - dotProduct (point s - ray_point r) (point s - ray_point r)
    + dotProduct (point s - ray_point r) (ray_vector r) * dotProduct (point s - ray_point r) (ray_vector r)"
proof -
  have d1: "dotProduct (ray_vector r) (ray_vector r) = 1"
    using assms by (simp add: length_vector_eq_1_iff)
  have sq: "(t - v)\<^sup>2 = t * t - 2 * t * v + v * v" for v :: real
    by (simp add: power2_eq_square algebra_simps)
  show ?thesis
    unfolding on_surface_def subtract_is_minus ray_at_minus_center dot_line d1 sq
    by linarith
qed

lemma sq_eq_disc_iff:
  "0 \<le> (D::real) \<Longrightarrow> (t - v)\<^sup>2 = D \<longleftrightarrow> t = v - sqrt D \<or> t = v + sqrt D"
proof -
  assume D: "0 \<le> D"
  have "(t - v)\<^sup>2 = D \<longleftrightarrow> (t - v)\<^sup>2 = (sqrt D)\<^sup>2" using D by simp
  also have "\<dots> \<longleftrightarrow> t - v = sqrt D \<or> t - v = - sqrt D" by (rule power2_eq_iff)
  finally show ?thesis by auto
qed

text \<open>
  Along a ray of unit direction, the surface equation is a quadratic in the
  distance with the code's \<open>v\<close> as vertex and its \<open>discriminant\<close> as the
  right-hand side; \<open>intersection\<close> returns its smaller root.
\<close>

lemma intersection_roots:
  assumes "length_vector (ray_vector r) = 1"
  obtains v D where "intersection s r = (if D < 0 then None else Some (v - sqrt D))"
    and "\<And>t. on_surface s (ray_at r t) \<longleftrightarrow> (t - v)\<^sup>2 = D"
proof -
  define w where "w = point s - ray_point r"
  define v where "v = dotProduct w (ray_vector r)"
  define D where "D = radius s * radius s - dotProduct w w + v * v"
  have "on_surface s (ray_at r t) \<longleftrightarrow> (t - v)\<^sup>2 = D" for t
    using on_surface_ray_at [OF assms, of s t] unfolding w_def v_def D_def .
  moreover have "intersection s r = (if D < 0 then None else Some (v - sqrt D))"
    unfolding intersection_def subtract_is_minus Let_def w_def v_def D_def ..
  ultimately show ?thesis using that by blast
qed

lemma no_root_below: "D < 0 \<Longrightarrow> (t - v)\<^sup>2 \<noteq> (D::real)"
proof -
  assume "D < 0"
  moreover have "0 \<le> (t - v)\<^sup>2" by simp
  ultimately show ?thesis by linarith
qed

lemma dot_normal_self:
  "on_surface s p \<Longrightarrow> 0 < radius s \<Longrightarrow> dotProduct (normal s p) (normal s p) = 1"
proof -
  assume on: "on_surface s p" and r: "0 < radius s"
  have "dotProduct (p - point s) (p - point s) = radius s * radius s"
    using on by (simp add: on_surface_def subtract_is_minus)
  with r have "p - point s \<noteq> 0" by auto
  then show ?thesis by (simp add: normal_def subtract_is_minus dot_normalize_self)
qed

abbreviation test_sphere :: sphere where
  "test_sphere \<equiv> \<lparr>point = Vector 0 0 0, radius = 1, color = WHITE, specular = 0,
                   lambert = 1, ambient = 0\<rparr>"

section \<open>Properties of the constructor\<close>

text \<open>
  C30: the constructor fails exactly when the radius is \<open>undefined\<close>
  ("Radius must be a number.") or not positive ("Radius must be greater than
  0."); the \<open>Shape\<close> check of \<open>super()\<close> never fires for a sphere.
\<close>

theorem Sphere_new_errors:
  "Sphere_new p r c s l a = Inl e \<longleftrightarrow>
     (r = None \<and> e = RadiusNotNumber) \<or> (\<exists>rv. r = Some rv \<and> rv \<le> 0 \<and> e = RadiusNotPositive)"
  by (cases r) (auto simp: Sphere_new_def Shape_new_def Let_def)

text \<open>
  C31: a sphere that the constructor returns has the radius it was given, and
  that radius is positive: the well-formedness invariant of scene objects.
\<close>

theorem Sphere_new_radius:
  "Sphere_new p r c s l a = Inr sp \<Longrightarrow> r = Some (radius sp) \<and> 0 < radius sp"
  by (cases r) (auto simp: Sphere_new_def Shape_new_def Let_def split: if_splits)

theorem Sphere_new_radius_witness:
  "Sphere_new None (Some 3) None None None None =
     Inr \<lparr>point = ZERO, radius = 3, color = ZERO, specular = 0.2, lambert = 0.7, ambient = 0.1\<rparr>
   \<and> 0 < (3::real)"
proof -
  have eq: "Sphere_new None (Some 3) None None None None =
     Inr \<lparr>point = ZERO, radius = 3, color = ZERO, specular = 0.2, lambert = 0.7, ambient = 0.1\<rparr>"
    by (simp add: Sphere_new_def Shape_new_def Vector_new_def ZERO_def)
  show ?thesis using Sphere_new_radius [OF eq] eq by simp
qed

text \<open>
  C32: an explicit coefficient \<open>0\<close> is falsy, so \<open>specular || 0.2\<close>,
  \<open>lambert || 0.7\<close> and \<open>ambient || 0.1\<close> replace it by the default: a
  sphere cannot be given a zero coefficient.
\<close>

theorem Sphere_new_zero_coefficients:
  "0 < rv \<Longrightarrow> \<exists>sp. Sphere_new p (Some rv) c (Some 0) (Some 0) (Some 0) = Inr sp \<and>
     specular sp = 0.2 \<and> lambert sp = 0.7 \<and> ambient sp = 0.1"
  by (simp add: Sphere_new_def Shape_new_def Let_def)

theorem Sphere_new_zero_coefficients_witness:
  "\<exists>sp. Sphere_new None (Some 0.2) None (Some 0) (Some 0) (Some 0) = Inr sp \<and>
     specular sp = 0.2 \<and> lambert sp = 0.7 \<and> ambient sp = 0.1"
  using Sphere_new_zero_coefficients [of "0.2"] by simp

section \<open>Properties of the intersection\<close>

text \<open>
  C27: for a ray of unit direction, \<open>intersection\<close> returns \<open>t\<close> exactly when
  \<open>t\<close> is the least distance at which the ray's line meets the sphere's
  surface (the near root, possibly negative: behind the ray's origin).
\<close>

theorem intersection_least_root:
  assumes "length_vector (ray_vector r) = 1"
  shows "intersection s r = Some t \<longleftrightarrow>
    on_surface s (ray_at r t) \<and> (\<forall>t'. on_surface s (ray_at r t') \<longrightarrow> t \<le> t')"
proof -
  obtain v D where int: "intersection s r = (if D < 0 then None else Some (v - sqrt D))"
    and surf: "\<And>t. on_surface s (ray_at r t) \<longleftrightarrow> (t - v)\<^sup>2 = D"
    using intersection_roots [OF assms] by blast
  show ?thesis
  proof (cases "D < 0")
    case True
    then show ?thesis by (simp add: int surf no_root_below)
  next
    case False
    then have D: "0 \<le> D" by simp
    then have sD: "0 \<le> sqrt D" by simp
    have roots: "(t' - v)\<^sup>2 = D \<longleftrightarrow> t' = v - sqrt D \<or> t' = v + sqrt D" for t'
      using D by (rule sq_eq_disc_iff)
    show ?thesis
    proof
      assume "intersection s r = Some t"
      then have t: "t = v - sqrt D" using False by (simp add: int)
      show "on_surface s (ray_at r t) \<and> (\<forall>t'. on_surface s (ray_at r t') \<longrightarrow> t \<le> t')"
        using sD by (auto simp: surf roots t)
    next
      assume H: "on_surface s (ray_at r t) \<and> (\<forall>t'. on_surface s (ray_at r t') \<longrightarrow> t \<le> t')"
      then have "t \<le> v - sqrt D" by (simp add: surf roots)
      moreover from H have "t = v - sqrt D \<or> t = v + sqrt D" by (simp add: surf roots)
      ultimately have "t = v - sqrt D" using sD by linarith
      then show "intersection s r = Some t" using False by (simp add: int)
    qed
  qed
qed

theorem intersection_least_root_witness:
  "on_surface test_sphere (ray_at \<lparr>ray_point = Vector 0 0 10, ray_vector = Vector 0 0 (-1)\<rparr> 9) \<and>
   9 \<le> (11::real)"
proof -
  have u: "length_vector (ray_vector \<lparr>ray_point = Vector 0 0 10, ray_vector = Vector 0 0 (-1)\<rparr>) = 1"
    by (simp add: length_vector_def dotProduct_def)
  have hit: "intersection test_sphere \<lparr>ray_point = Vector 0 0 10, ray_vector = Vector 0 0 (-1)\<rparr> = Some 9"
    by (simp add: intersection_def vec_unfold)
  have far: "on_surface test_sphere (ray_at \<lparr>ray_point = Vector 0 0 10, ray_vector = Vector 0 0 (-1)\<rparr> 11)"
    by (simp add: on_surface_def ray_at_def vec_unfold)
  show ?thesis using intersection_least_root [OF u, of test_sphere 9] hit far by blast
qed

text \<open>
  C28: for a ray of unit direction, \<open>intersection\<close> reports no hit exactly
  when the ray's line misses the sphere.
\<close>

theorem intersection_None_iff:
  assumes "length_vector (ray_vector r) = 1"
  shows "intersection s r = None \<longleftrightarrow> (\<forall>t. \<not> on_surface s (ray_at r t))"
proof -
  obtain v D where int: "intersection s r = (if D < 0 then None else Some (v - sqrt D))"
    and surf: "\<And>t. on_surface s (ray_at r t) \<longleftrightarrow> (t - v)\<^sup>2 = D"
    using intersection_roots [OF assms] by blast
  show ?thesis
  proof (cases "D < 0")
    case True
    then show ?thesis by (simp add: int surf no_root_below)
  next
    case False
    then have "(v - sqrt D - v)\<^sup>2 = D" by (simp add: sq_eq_disc_iff)
    then have "\<exists>t. (t - v)\<^sup>2 = D" by blast
    with False show ?thesis by (simp add: int surf)
  qed
qed

theorem intersection_None_iff_witness:
  "intersection test_sphere \<lparr>ray_point = Vector 0 0 10, ray_vector = Vector 1 0 0\<rparr> = None \<and>
   (\<forall>t. \<not> on_surface test_sphere (ray_at \<lparr>ray_point = Vector 0 0 10, ray_vector = Vector 1 0 0\<rparr> t))"
proof -
  have u: "length_vector (ray_vector \<lparr>ray_point = Vector 0 0 10, ray_vector = Vector 1 0 0\<rparr>) = 1"
    by (simp add: length_vector_def dotProduct_def)
  have miss: "intersection test_sphere \<lparr>ray_point = Vector 0 0 10, ray_vector = Vector 1 0 0\<rparr> = None"
    by (simp add: intersection_def vec_unfold)
  show ?thesis using intersection_None_iff [OF u, of test_sphere] miss by simp
qed

text \<open>At a point of the surface of a sphere with positive radius, \<open>normal\<close> is a unit vector.\<close>

theorem normal_unit:
  "on_surface s p \<Longrightarrow> 0 < radius s \<Longrightarrow> length_vector (normal s p) = 1"
  by (simp add: length_vector_eq_1_iff dot_normal_self)

theorem normal_unit_witness:
  "on_surface test_sphere (Vector 0 0 1) \<and> 0 < radius test_sphere \<and>
   length_vector (normal test_sphere (Vector 0 0 1)) = 1"
proof -
  have on: "on_surface test_sphere (Vector 0 0 1)" by (simp add: on_surface_def vec_unfold)
  show ?thesis using normal_unit [OF on] on by simp
qed

text \<open>
  C29: a ray whose origin lies strictly inside a sphere gets a negative
  distance from \<open>intersection\<close> (the near root is behind the origin); the
  method never returns the exit point.
\<close>

theorem intersection_inside_negative:
  assumes "dotProduct (subtract (ray_point r) (point s)) (subtract (ray_point r) (point s))
           < radius s * radius s"
  shows "\<exists>t. intersection s r = Some t \<and> t < 0"
proof -
  define w where "w = point s - ray_point r"
  define v where "v = dotProduct w (ray_vector r)"
  define D where "D = radius s * radius s - dotProduct w w + v * v"
  have ww: "dotProduct w w = dotProduct (subtract (ray_point r) (point s)) (subtract (ray_point r) (point s))"
    by (simp add: w_def subtract_is_minus dot_comm)
  have "v * v < D" using assms by (simp add: D_def ww)
  then have "sqrt (v * v) < sqrt D" by (rule real_sqrt_less_mono)
  then have lt: "\<bar>v\<bar> < sqrt D" by (simp add: real_sqrt_abs2)
  have "0 \<le> v * v" by simp
  then have "0 \<le> D" using \<open>v * v < D\<close> by linarith
  moreover have "intersection s r = (if D < 0 then None else Some (v - sqrt D))"
    unfolding intersection_def subtract_is_minus Let_def w_def v_def D_def ..
  ultimately show ?thesis using lt by auto
qed

theorem intersection_inside_negative_witness:
  "\<exists>t. intersection test_sphere \<lparr>ray_point = Vector 0 0 0, ray_vector = Vector 0 0 (-1)\<rparr> = Some t \<and> t < 0"
proof -
  have "dotProduct (subtract (Vector 0 0 0) (point test_sphere)) (subtract (Vector 0 0 0) (point test_sphere))
        < radius test_sphere * radius test_sphere"
    by (simp add: vec_unfold)
  then show ?thesis using intersection_inside_negative by simp
qed

end
