(* ===== verification/Scene.thy ===== *)
theory Scene
  imports Sphere
begin

text \<open>
  The scene object of src/src/main.js: the camera, the point lights (bare
  positions) and the list of shapes, with the canvas size that \<open>render\<close>
  reads from it (the DOM handles \<open>canvas\<close>, \<open>context\<close> and \<open>data\<close> are not
  part of the record: the pixel buffer is passed to \<open>render\<close> explicitly).
  The demo scene that \<open>onReady\<close> builds is modelled with its three
  \<open>new Sphere(...)\<close> calls, any of which may throw.
\<close>

record camera =
  camera_point :: vector
  fieldOfView :: real
  camera_vector :: vector

record scene =
  width :: nat
  height :: nat
  camera :: camera
  lights :: "vector list"
  objects :: "sphere list"

text \<open>Well-formed scene: every object has the positive radius its constructor checked.\<close>

definition scene_wf :: "scene \<Rightarrow> bool" where
  "scene_wf sc \<longleftrightarrow> list_all (\<lambda>s. 0 < radius s) (objects sc)"

definition demo_objects :: "error + sphere list" where
  "demo_objects =
     (case Sphere_new (Some (Vector 0 3.5 (-3))) (Some 3) (Some (Vector 155 200 155))
             (Some 0.2) (Some 0.7) (Some 0.1) of
        Inl e \<Rightarrow> Inl e
      | Inr s1 \<Rightarrow>
          (case Sphere_new (Some (Vector (-4) 2 (-1))) (Some 0.2) (Some (Vector 155 155 155))
                  (Some 0.1) (Some 0.9) (Some 0.0) of
             Inl e \<Rightarrow> Inl e
           | Inr s2 \<Rightarrow>
               (case Sphere_new (Some (Vector (-4) 3 (-1))) (Some 0.1) (Some WHITE)
                       (Some 0.2) (Some 0.7) (Some 0.1) of
                  Inl e \<Rightarrow> Inl e
                | Inr s3 \<Rightarrow> Inr [s1, s2, s3])))"

definition demo_scene :: "nat \<Rightarrow> nat \<Rightarrow> error + scene" where
  "demo_scene w h =
     (case demo_objects of
        Inl e \<Rightarrow> Inl e
      | Inr objs \<Rightarrow>
          Inr \<lparr>width = w, height = h,
               camera = \<lparr>camera_point = Vector 0 1.8 10, fieldOfView = 45,
                         camera_vector = Vector 0 3 0\<rparr>,
               lights = [Vector (-30) (-10) 20],
               objects = objs\<rparr>)"

text \<open>
  The demo scene of \<open>onReady\<close> is built without an exception, holds the
  three spheres, and is well-formed.
\<close>

theorem demo_scene_wf:
  "\<exists>sc. demo_scene w h = Inr sc \<and> length (objects sc) = 3 \<and> scene_wf sc"
  by (simp add: demo_scene_def demo_objects_def Sphere_new_def Shape_new_def Let_def scene_wf_def)

end
