(* ===== verification/Intersector.thy ===== *)
theory Intersector
  imports Scene
begin

text \<open>
  \<open>intersectScene\<close> and \<open>isLightVisible\<close> of src/src/main.js. The
  search loop is written over any object type with an \<open>intersection\<close>
  method (the \<open>Shape\<close> capability): \<open>closest_loop hit objs closest\<close> is
  the \<open>for\<close> loop with its accumulator \<open>closest\<close>, where \<open>None\<close> stands
  for the initial \<open>[Infinity, null]\<close>. The lemmas show that the loop
  computes the reference function \<open>nearest\<close> and that this returns the first
  object, in list order, whose hit distance is least; then they characterise
  the shadow test.
\<close>

fun closer :: "real \<Rightarrow> (real \<times> 'o) option \<Rightarrow> bool" where
  "closer d None = True"
| "closer d (Some (best, _)) = (d < best)"

fun closest_loop ::
  "('o \<Rightarrow> real option) \<Rightarrow> 'o list \<Rightarrow> (real \<times> 'o) option \<Rightarrow> (real \<times> 'o) option" where
  "closest_loop hit [] closest = closest"
| "closest_loop hit (obj # objs) closest =
     (case hit obj of
        None \<Rightarrow> closest_loop hit objs closest
      | Some distance \<Rightarrow>
          closest_loop hit objs (if closer distance closest then Some (distance, obj) else closest))"

definition intersectScene :: "ray \<Rightarrow> scene \<Rightarrow> (real \<times> sphere) option" where
  "intersectScene r sc = closest_loop (\<lambda>obj. intersection obj r) (objects sc) None"

definition shadow_ray :: "vector \<Rightarrow> vector \<Rightarrow> ray" where
  "shadow_ray p light = \<lparr>ray_point = p, ray_vector = normalize (subtract p light)\<rparr>"

definition isLightVisible :: "vector \<Rightarrow> scene \<Rightarrow> vector \<Rightarrow> bool" where
  "isLightVisible p sc light =
     (case intersectScene (shadow_ray p light) sc of
        None \<Rightarrow> True
      | Some (distance, _) \<Rightarrow> -0.005 < distance)"

section \<open>Reference definitions\<close>

text \<open>
  \<open>nearest\<close>: the hit of least distance, the earlier one on a tie, by
  recursion from the right; \<open>first_nearest hit objs i d\<close>: the object at
  index \<open>i\<close> is hit at \<open>d\<close>, no object is hit nearer, and every object
  before it is hit strictly farther or not at all.
\<close>

fun nearest :: "('o \<Rightarrow> real option) \<Rightarrow> 'o list \<Rightarrow> (real \<times> 'o) option" where
  "nearest hit [] = None"
| "nearest hit (obj # objs) =
     (case hit obj of
        None \<Rightarrow> nearest hit objs
      | Some d \<Rightarrow>
          (case nearest hit objs of
             None \<Rightarrow> Some (d, obj)
           | Some (d', obj') \<Rightarrow> if d \<le> d' then Some (d, obj) else Some (d', obj')))"

definition first_nearest :: "('o \<Rightarrow> real option) \<Rightarrow> 'o list \<Rightarrow> nat \<Rightarrow> real \<Rightarrow> bool" where
  "first_nearest hit objs i d \<longleftrightarrow>
     i < length objs \<and> hit (objs ! i) = Some d \<and>
     (\<forall>j < length objs. case hit (objs ! j) of
        None \<Rightarrow> True
      | Some d' \<Rightarrow> d \<le> d' \<and> (j < i \<longrightarrow> d < d'))"

section \<open>The search loop computes the reference function\<close>

lemma closest_loop_nearest:
  "closest_loop hit objs acc =
     (case nearest hit objs of
        None \<Rightarrow> acc
      | Some (d, obj) \<Rightarrow> if closer d acc then Some (d, obj) else acc)"
proof (induction objs arbitrary: acc)
  case Nil
  then show ?case by simp
next
  case (Cons obj objs)
  show ?case
  proof (cases "hit obj")
    case None
    then show ?thesis by (simp add: Cons.IH)
  next
    case (Some d)
    then show ?thesis
      by (cases acc; cases "nearest hit objs")
         (auto simp: Cons.IH split: if_splits)
  qed
qed

lemma nearest_None_iff: "nearest hit objs = None \<longleftrightarrow> (\<forall>obj \<in> set objs. hit obj = None)"
  by (induction objs) (auto split: option.splits)

lemma first_nearest_Cons:
  "first_nearest hit (obj # objs) i d \<longleftrightarrow>
     (i = 0 \<and> hit obj = Some d \<and>
        (\<forall>j < length objs. case hit (objs ! j) of None \<Rightarrow> True | Some d' \<Rightarrow> d \<le> d'))
   \<or> (\<exists>i'. i = Suc i' \<and> first_nearest hit objs i' d \<and>
        (case hit obj of None \<Rightarrow> True | Some d0 \<Rightarrow> d < d0))"
  by (cases i) (auto simp: first_nearest_def All_less_Suc2 split: option.splits)

lemma first_nearest_le:
  "first_nearest hit objs i d \<Longrightarrow> j < length objs \<Longrightarrow> hit (objs ! j) = Some e \<Longrightarrow> d \<le> e"
  unfolding first_nearest_def by (metis option.simps(5))

lemma first_nearest_unique:
  assumes "first_nearest hit objs i d" and "first_nearest hit objs k e"
  shows "i = k \<and> d = e"
proof -
  have i: "i < length objs" "hit (objs ! i) = Some d"
    and k: "k < length objs" "hit (objs ! k) = Some e"
    using assms by (auto simp: first_nearest_def)
  have "d \<le> e" by (rule first_nearest_le [OF assms(1) k])
  moreover have "e \<le> d" by (rule first_nearest_le [OF assms(2) i])
  ultimately have de: "d = e" by simp
  have "\<not> i < k"
  proof
    assume "i < k"
    with assms(2) i have "e < d" unfolding first_nearest_def by fastforce
    with de show False by simp
  qed
  moreover have "\<not> k < i"
  proof
    assume "k < i"
    with assms(1) k have "d < e" unfolding first_nearest_def by fastforce
    with de show False by simp
  qed
  ultimately show ?thesis using de by simp
qed

lemma nearest_Some_first_nearest:
  "nearest hit objs = Some (d, obj) \<Longrightarrow> \<exists>i. first_nearest hit objs i d \<and> objs ! i = obj"
proof (induction objs arbitrary: d obj)
  case Nil
  then show ?case by simp
next
  case (Cons o1 objs)
  show ?case
  proof (cases "hit o1")
    case None
    with Cons obtain i where "first_nearest hit objs i d" "objs ! i = obj" by auto
    with None show ?thesis by (auto simp: first_nearest_Cons)
  next
    case (Some d1)
    show ?thesis
    proof (cases "nearest hit objs")
      case None
      with Some Cons.prems have "d = d1" "obj = o1" by auto
      moreover have "\<forall>obj \<in> set objs. hit obj = None" using None by (simp add: nearest_None_iff)
      ultimately have "first_nearest hit (o1 # objs) 0 d"
        using Some by (auto simp: first_nearest_Cons)
      with \<open>obj = o1\<close> show ?thesis by auto
    next
      case (Some p)
      obtain d' o' where p: "p = (d', o')" by (cases p)
      with Some Cons.IH obtain i' where fi: "first_nearest hit objs i' d'" "objs ! i' = o'" by blast
      show ?thesis
      proof (cases "d1 \<le> d'")
        case True
        with \<open>hit o1 = Some d1\<close> Some p Cons.prems have "d = d1" "obj = o1" by auto
        moreover have "\<forall>j < length objs. case hit (objs ! j) of None \<Rightarrow> True | Some e \<Rightarrow> d1 \<le> e"
          using first_nearest_le [OF fi(1)] True by (fastforce split: option.splits)
        ultimately have "first_nearest hit (o1 # objs) 0 d"
          using \<open>hit o1 = Some d1\<close> by (auto simp: first_nearest_Cons)
        with \<open>obj = o1\<close> show ?thesis by auto
      next
        case False
        with \<open>hit o1 = Some d1\<close> Some p Cons.prems have "d = d'" "obj = o'" by auto
        with fi False \<open>hit o1 = Some d1\<close> have "first_nearest hit (o1 # objs) (Suc i') d"
          by (auto simp: first_nearest_Cons)
        with \<open>obj = o'\<close> fi(2) show ?thesis by auto
      qed
    qed
  qed
qed

lemma nearest_iff_first_nearest:
  "nearest hit objs = Some (d, obj) \<longleftrightarrow> (\<exists>i. first_nearest hit objs i d \<and> objs ! i = obj)"
proof
  assume "nearest hit objs = Some (d, obj)"
  then show "\<exists>i. first_nearest hit objs i d \<and> objs ! i = obj" by (rule nearest_Some_first_nearest)
next
  assume "\<exists>i. first_nearest hit objs i d \<and> objs ! i = obj"
  then obtain i where fi: "first_nearest hit objs i d" and o: "objs ! i = obj" by blast
  then have "objs ! i \<in> set objs" "hit (objs ! i) \<noteq> None" by (auto simp: first_nearest_def)
  then obtain d' o' where n: "nearest hit objs = Some (d', o')"
    by (metis nearest_None_iff not_None_eq prod.exhaust)
  then obtain i' where "first_nearest hit objs i' d'" "objs ! i' = o'"
    by (blast dest: nearest_Some_first_nearest)
  with fi o n first_nearest_unique show "nearest hit objs = Some (d, obj)" by blast
qed


lemma intersectScene_nearest:
  "intersectScene r sc = nearest (\<lambda>obj. intersection obj r) (objects sc)"
  by (simp add: intersectScene_def closest_loop_nearest split: option.splits)

lemma nearest_least:
  assumes "nearest hit objs = Some (d, obj)"
  shows "obj \<in> set objs \<and> hit obj = Some d \<and> (\<forall>o' \<in> set objs. \<forall>e. hit o' = Some e \<longrightarrow> d \<le> e)"
proof -
  obtain i where fi: "first_nearest hit objs i d" and o: "objs ! i = obj"
    using nearest_Some_first_nearest [OF assms] by blast
  have "\<forall>o' \<in> set objs. \<forall>e. hit o' = Some e \<longrightarrow> d \<le> e"
    using first_nearest_le [OF fi] by (metis in_set_conv_nth)
  with fi o show ?thesis by (auto simp: first_nearest_def)
qed

lemma intersection_centre_on_ray:
  assumes "length_vector u = 1" and "point s = p + scale u a" and "0 \<le> radius s"
  shows "intersection s \<lparr>ray_point = p, ray_vector = - u\<rparr> = Some (- a - radius s)"
proof -
  have u: "dotProduct u u = 1" using assms(1) by (simp add: length_vector_eq_1_iff)
  have w: "point s - p = scale u a" using assms(2) by simp
  show ?thesis
    using assms(3) by (simp add: intersection_def subtract_is_minus w u)
qed

lemma shadow_ray_direction: "shadow_ray p l = \<lparr>ray_point = p, ray_vector = - normalize (l - p)\<rparr>"
  by (simp add: shadow_ray_def subtract_is_minus normalize_uminus [symmetric])

lemma hit_blocks_light:
  assumes "s \<in> set (objects sc)" and "intersection s (shadow_ray p l) = Some t"
    and "t \<le> -0.005"
  shows "\<not> isLightVisible p sc l"
proof (cases "intersectScene (shadow_ray p l) sc")
  case None
  then have "\<forall>obj \<in> set (objects sc). intersection obj (shadow_ray p l) = None"
    by (simp add: intersectScene_nearest nearest_None_iff [symmetric])
  with assms(1,2) show ?thesis by simp
next
  case (Some p')
  obtain d obj where p': "p' = (d, obj)" by (cases p')
  with Some have "nearest (\<lambda>obj. intersection obj (shadow_ray p l)) (objects sc) = Some (d, obj)"
    by (simp add: intersectScene_nearest)
  from nearest_least [OF this] assms have "d \<le> t" by blast
  with assms(3) Some p' show ?thesis by (simp add: isLightVisible_def)
qed

abbreviation occluder :: sphere where
  "occluder \<equiv> \<lparr>point = Vector 0 0 10, radius = 1, color = WHITE, specular = 0,
                lambert = 1, ambient = 0\<rparr>"

abbreviation occluder_scene :: scene where
  "occluder_scene \<equiv> \<lparr>width = 2, height = 2,
     camera = \<lparr>camera_point = Vector 0 0 20, fieldOfView = 90, camera_vector = ZERO\<rparr>,
     lights = [Vector 0 0 5], objects = [occluder]\<rparr>"

lemma occluder_shadow_hit:
  "intersection occluder (shadow_ray (Vector 0 0 0) (Vector 0 0 5)) = Some (-11)"
  by (simp add: shadow_ray_def intersection_def normalize_def length_vector_def vec_unfold)

section \<open>Properties of the intersector\<close>

text \<open>
  C3: \<open>intersectScene\<close> returns the object at the first index whose hit
  distance is least among all hits (ties go to the earlier object), together
  with that distance; negative distances take part like any other.
\<close>

theorem intersectScene_first_nearest:
  "intersectScene r sc = Some (d, obj) \<longleftrightarrow>
     (\<exists>i. first_nearest (\<lambda>s. intersection s r) (objects sc) i d \<and> objects sc ! i = obj)"
  by (simp add: intersectScene_nearest nearest_iff_first_nearest)

text \<open>\<open>intersectScene\<close> reports no hit exactly when no object is hit.\<close>

theorem intersectScene_None_iff:
  "intersectScene r sc = None \<longleftrightarrow> (\<forall>obj \<in> set (objects sc). intersection obj r = None)"
  by (simp add: intersectScene_nearest nearest_None_iff)

theorem intersectScene_None_iff_witness:
  "intersectScene \<lparr>ray_point = Vector 0 0 20, ray_vector = Vector 1 0 0\<rparr> occluder_scene = None"
proof -
  have "\<forall>obj \<in> set (objects occluder_scene).
      intersection obj \<lparr>ray_point = Vector 0 0 20, ray_vector = Vector 1 0 0\<rparr> = None"
    by (simp add: intersection_def vec_unfold)
  then show ?thesis using intersectScene_None_iff by blast
qed

text \<open>
  Two spheres hit at the same distance resolve to the first in the
  scene's object order (here two unit spheres at the origin that differ only
  in colour, seen from \<open>(0,0,10)\<close> along \<open>-z\<close>: both are hit at 9).
\<close>

theorem intersectScene_tie_first:
  "intersectScene \<lparr>ray_point = Vector 0 0 10, ray_vector = Vector 0 0 (-1)\<rparr>
     (occluder_scene\<lparr>objects := [test_sphere, test_sphere\<lparr>color := ZERO\<rparr>]\<rparr>) = Some (9, test_sphere)"
  by (simp add: intersectScene_def intersection_def vec_unfold)

text \<open>
  C13: a light is visible from a point exactly when every object that the
  shadow ray (from the point, directed away from the light) hits is hit at a
  distance greater than \<open>-0.005\<close>.
\<close>

theorem isLightVisible_iff:
  "isLightVisible p sc l \<longleftrightarrow>
     (\<forall>obj \<in> set (objects sc). case intersection obj (shadow_ray p l) of
        None \<Rightarrow> True | Some d \<Rightarrow> -0.005 < d)"
proof (cases "intersectScene (shadow_ray p l) sc")
  case None
  then have "\<forall>obj \<in> set (objects sc). intersection obj (shadow_ray p l) = None"
    by (simp add: intersectScene_nearest nearest_None_iff [symmetric])
  with None show ?thesis by (simp add: isLightVisible_def)
next
  case (Some p')
  obtain d obj where p': "p' = (d, obj)" by (cases p')
  with Some have n: "nearest (\<lambda>obj. intersection obj (shadow_ray p l)) (objects sc) = Some (d, obj)"
    by (simp add: intersectScene_nearest)
  from nearest_least [OF n] Some p' show ?thesis
    by (force simp: isLightVisible_def split: option.splits)
qed

theorem isLightVisible_iff_witness:
  "isLightVisible (Vector 5 0 0) occluder_scene (Vector 5 0 5)"
proof -
  have "intersection occluder (shadow_ray (Vector 5 0 0) (Vector 5 0 5)) = None"
    by (simp add: shadow_ray_def intersection_def normalize_def length_vector_def vec_unfold)
  then show ?thesis using isLightVisible_iff [of "Vector 5 0 0" occluder_scene "Vector 5 0 5"] by simp
qed

text \<open>
  C14: a sphere whose centre lies on the line from the point towards the
  light, at any signed distance \<open>a\<close> along it with \<open>a + radius \<ge> 0.005\<close>,
  hides the light. The distance is not bounded by the light's: a sphere
  beyond the light casts the same shadow as one between point and light.
\<close>

theorem shadow_on_light_line:
  assumes "s \<in> set (objects sc)" and "p \<noteq> l" and "0 < radius s" and "0.005 \<le> a + radius s"
    and "point s = add p (scale (normalize (subtract l p)) a)"
  shows "\<not> isLightVisible p sc l"
proof -
  have "l - p \<noteq> 0" using assms(2) by simp
  then have "length_vector (normalize (l - p)) = 1"
    by (simp add: length_vector_eq_1_iff dot_normalize_self)
  then have "intersection s (shadow_ray p l) = Some (- a - radius s)"
    using assms(3,5) by (simp add: shadow_ray_direction intersection_centre_on_ray add_is_plus subtract_is_minus)
  moreover have "- a - radius s \<le> -0.005" using assms(4) by simp
  ultimately show ?thesis using assms(1) by (rule hit_blocks_light [rotated])
qed

theorem shadow_on_light_line_witness:
  "\<not> isLightVisible (Vector 0 0 0) occluder_scene (Vector 0 0 5)"
proof -
  have c: "point occluder =
    add (Vector 0 0 0) (scale (normalize (subtract (Vector 0 0 5) (Vector 0 0 0))) 10)"
    by (simp add: normalize_def length_vector_def vec_unfold)
  show ?thesis
    by (rule shadow_on_light_line [OF _ _ _ _ c]) (simp_all add: vector_eq_iff)
qed

text \<open>
  Hits are not filtered by sign: a sphere behind the ray's origin (hit
  at \<open>-6\<close>) wins over a sphere in front of it (hit at \<open>9\<close>), so objects
  behind the camera can be drawn.
\<close>

theorem intersectScene_behind_wins:
  "intersectScene \<lparr>ray_point = Vector 0 0 0, ray_vector = Vector 0 0 (-1)\<rparr>
     (occluder_scene\<lparr>objects := [test_sphere\<lparr>point := Vector 0 0 (-10)\<rparr>,
                                  test_sphere\<lparr>point := Vector 0 0 5\<rparr>]\<rparr>)
   = Some (-6, test_sphere\<lparr>point := Vector 0 0 5\<rparr>)"
  by (simp add: intersectScene_def intersection_def vec_unfold)

end
