(* ===== verification/Tracer.thy ===== *)
theory Tracer
  imports Intersector
begin

text \<open>
  \<open>surface\<close> and \<open>trace\<close> of src/src/main.js, mutually recursive through
  the reflected ray, with the depth cut-off \<open>depth > 3\<close>; \<open>undefined\<close>
  (no contribution) is \<open>None\<close>. The \<open>for\<close> loop over the lights that
  accumulates \<open>lambertAmount\<close> is \<open>lambert_loop\<close>, with the \<open>continue\<close>
  on an occluded light as its first branch. The JavaScript truthiness tests
  \<open>if (object.lambert)\<close> and \<open>if (object.specular)\<close> are tests against
  \<open>0\<close>. Termination is proved with a measure that decreases from \<open>trace\<close>
  at depth \<open>d\<close> to \<open>surface\<close> at \<open>d\<close> and from there to \<open>trace\<close> at
  \<open>d + 1\<close>, and vanishes beyond depth 3. The lemmas at the end trace a
  ray between two facing mirrors, one bounce at a time, down to the cut-off.
\<close>

fun lambert_loop :: "scene \<Rightarrow> vector \<Rightarrow> vector \<Rightarrow> vector list \<Rightarrow> real \<Rightarrow> real" where
  "lambert_loop sc pointAtTime n [] lambertAmount = lambertAmount"
| "lambert_loop sc pointAtTime n (lightPoint # ls) lambertAmount =
     (if \<not> isLightVisible pointAtTime sc lightPoint
      then lambert_loop sc pointAtTime n ls lambertAmount
      else (let contribution = dotProduct (normalize (subtract lightPoint pointAtTime)) n
            in lambert_loop sc pointAtTime n ls
                 (if 0 < contribution then lambertAmount + contribution else lambertAmount)))"

function trace :: "ray \<Rightarrow> scene \<Rightarrow> nat \<Rightarrow> vector option"
  and surface :: "ray \<Rightarrow> scene \<Rightarrow> sphere \<Rightarrow> vector \<Rightarrow> vector \<Rightarrow> nat \<Rightarrow> vector" where
  "trace r sc depth =
     (if 3 < depth then None
      else (case intersectScene r sc of
              None \<Rightarrow> Some WHITE
            | Some (distance, object) \<Rightarrow>
                (let pointAtTime = ray_at r distance
                 in Some (surface r sc object pointAtTime (normal object pointAtTime) depth))))"
| "surface r sc object pointAtTime n depth =
     (let lambertAmount =
            (if lambert object \<noteq> 0 then lambert_loop sc pointAtTime n (lights sc) 0 else 0);
          finalColor =
            (if specular object \<noteq> 0
             then (case trace \<lparr>ray_point = pointAtTime, ray_vector = reflectThrough (ray_vector r) n\<rparr>
                          sc (depth + 1) of
                     None \<Rightarrow> ZERO
                   | Some reflectedColor \<Rightarrow> add ZERO (scale reflectedColor (specular object)))
             else ZERO)
      in add3 finalColor (scale (color object) (lambertAmount * lambert object))
           (scale (color object) (ambient object)))"
  by pat_completeness auto
termination
  by (relation "measure (\<lambda>x. case x of
        Inl (_, _, d) \<Rightarrow> if 3 < d then 0 else 2 * (4 - d) + 2
      | Inr (_, _, _, _, _, d) \<Rightarrow> 2 * (4 - d) + 1)") auto

declare trace.simps [simp del] surface.simps [simp del]

section \<open>Specification predicates\<close>

text \<open>
  Non-negative colours and materials: the precondition under which the
  shading never produces a negative channel.
\<close>

definition nonneg_vec :: "vector \<Rightarrow> bool" where
  "nonneg_vec v \<longleftrightarrow> 0 \<le> vx v \<and> 0 \<le> vy v \<and> 0 \<le> vz v"

definition material_ok :: "sphere \<Rightarrow> bool" where
  "material_ok s \<longleftrightarrow> nonneg_vec (color s) \<and> 0 \<le> specular s \<and> 0 \<le> lambert s \<and> 0 \<le> ambient s"

section \<open>Helper lemmas\<close>

lemma trace_beyond: "3 < depth \<Longrightarrow> trace r sc depth = None"
  by (simp add: trace.simps)

lemma trace_defined: "depth \<le> 3 \<Longrightarrow> \<exists>c. trace r sc depth = Some c"
  by (subst trace.simps) (auto simp: Let_def split: option.splits prod.splits)

lemma contribution_le_1:
  "length_vector n = 1 \<Longrightarrow> max 0 (dotProduct (normalize v) n) \<le> 1"
proof (cases "v = 0")
  case True
  then show ?thesis by (simp add: normalize_def)
next
  case False
  assume "length_vector n = 1"
  with False have "dotProduct (normalize v) n \<le> 1" by (rule dot_normalize_unit_le_1)
  then show ?thesis by simp
qed

lemma lambert_loop_bounds_acc:
  "length_vector n = 1 \<Longrightarrow>
     acc \<le> lambert_loop sc p n ls acc \<and> lambert_loop sc p n ls acc \<le> acc + real (length ls)"
proof (induction ls arbitrary: acc)
  case Nil
  then show ?case by simp
next
  case (Cons l ls)
  have c: "dotProduct (normalize (subtract l p)) n \<le> 1"
    using contribution_le_1 [OF Cons.prems, of "subtract l p"] by simp
  show ?case
    using Cons.IH [OF Cons.prems, of acc] Cons.IH [OF Cons.prems, of "acc + dotProduct (normalize (subtract l p)) n"] c
    by (auto simp: Let_def)
qed

lemma lambert_loop_nonneg: "0 \<le> acc \<Longrightarrow> 0 \<le> lambert_loop sc p n ls acc"
  by (induction ls arbitrary: acc) (auto simp: Let_def)

lemma nonneg_vec_add3:
  "nonneg_vec a \<Longrightarrow> nonneg_vec b \<Longrightarrow> nonneg_vec c \<Longrightarrow> nonneg_vec (add3 a b c)"
  by (simp add: nonneg_vec_def add3_def)

lemma nonneg_vec_scale: "nonneg_vec a \<Longrightarrow> 0 \<le> t \<Longrightarrow> nonneg_vec (scale a t)"
  by (simp add: nonneg_vec_def)

lemma intersectScene_member:
  "intersectScene r sc = Some (d, obj) \<Longrightarrow> obj \<in> set (objects sc)"
  using nearest_least by (fastforce simp: intersectScene_nearest)

lemma trace_surface_nonneg:
  "list_all material_ok (objects sc) \<Longrightarrow> trace r sc depth = Some c \<Longrightarrow> nonneg_vec c"
  "list_all material_ok (objects sc) \<Longrightarrow> material_ok obj \<Longrightarrow>
     nonneg_vec (surface r sc obj p n depth)"
proof (induction r sc depth and r sc obj p n depth arbitrary: c and rule: trace_surface.induct)
  case (1 r sc depth)
  show ?case
  proof (cases "intersectScene r sc")
    case None
    with "1.prems" show ?thesis
      by (auto simp: trace.simps nonneg_vec_def WHITE_def split: if_splits)
  next
    case (Some p')
    obtain d obj where p': "p' = (d, obj)" by (cases p')
    with Some have "material_ok obj"
      using "1.prems"(1) intersectScene_member by (fastforce simp: list_all_iff)
    with "1.IH" [OF _ Some [unfolded p'] refl] "1.prems" Some p' show ?thesis
      by (auto simp: trace.simps Let_def split: if_splits)
  qed
next
  case (2 r sc obj p n depth)
  have L: "0 \<le> (if lambert obj \<noteq> 0 then lambert_loop sc p n (lights sc) 0 else 0)"
    by (simp add: lambert_loop_nonneg)
  have F: "nonneg_vec (if specular obj \<noteq> 0
             then (case trace \<lparr>ray_point = p, ray_vector = reflectThrough (ray_vector r) n\<rparr> sc (depth + 1) of
                     None \<Rightarrow> ZERO | Some rc \<Rightarrow> add ZERO (scale rc (specular obj)))
             else ZERO)"
    using "2.IH" "2.prems"
    by (auto simp: nonneg_vec_def material_ok_def vec_unfold split: option.splits)
  show ?case
    using L F "2.prems"(2)
    by (simp add: surface.simps Let_def nonneg_vec_add3 nonneg_vec_scale material_ok_def
        mult_nonneg_nonneg)
qed

abbreviation two_light_scene :: scene where
  "two_light_scene \<equiv> \<lparr>width = 2, height = 2,
     camera = \<lparr>camera_point = Vector 0 0 20, fieldOfView = 90, camera_vector = ZERO\<rparr>,
     lights = [Vector 0 0 5, Vector 0 0 5], objects = [test_sphere]\<rparr>"

text \<open>
  The specification's depth cut-off scenario: two mirrored spheres
  (\<open>specular = 1\<close>, no diffuse term) of colour \<open>c\<close> and ambient
  coefficient \<open>a\<close>, facing each other along the \<open>z\<close> axis, and a ray from
  between them. Each surface the recursion shades adds \<open>scale c a\<close>, so the
  traced colour counts the bounces.
\<close>

abbreviation mirror_pair :: "vector \<Rightarrow> real \<Rightarrow> scene" where
  "mirror_pair c a \<equiv> \<lparr>width = 1, height = 1,
     camera = \<lparr>camera_point = Vector 0 0 0, fieldOfView = 90, camera_vector = Vector 0 0 (-1)\<rparr>,
     lights = [Vector 0 10 0],
     objects = [\<lparr>point = Vector 0 0 (-5), radius = 1, color = c,
                 specular = 1, lambert = 0, ambient = a\<rparr>,
                \<lparr>point = Vector 0 0 5, radius = 1, color = c,
                 specular = 1, lambert = 0, ambient = a\<rparr>]\<rparr>"

lemma visible_top:
  "isLightVisible (Vector 0 0 1) two_light_scene (Vector 0 0 5)"
  by (simp add: isLightVisible_def intersectScene_def shadow_ray_def intersection_def normalize_def
      length_vector_def vec_unfold)

lemma two_light_trace:
  "trace \<lparr>ray_point = Vector 0 0 10, ray_vector = Vector 0 0 (-1)\<rparr> two_light_scene 0 =
     Some (Vector 510 510 510)"
proof -
  have hit: "intersectScene \<lparr>ray_point = Vector 0 0 10, ray_vector = Vector 0 0 (-1)\<rparr> two_light_scene = Some (9, test_sphere)"
    by (simp add: intersectScene_def intersection_def vec_unfold)
  have p: "ray_at \<lparr>ray_point = Vector 0 0 10, ray_vector = Vector 0 0 (-1)\<rparr> 9 = Vector 0 0 1"
    by (simp add: ray_at_def vec_unfold)
  have n: "normal test_sphere (Vector 0 0 1) = Vector 0 0 1"
    by (simp add: normal_def normalize_def length_vector_def vec_unfold)
  have c: "dotProduct (normalize (subtract (Vector 0 0 5) (Vector 0 0 1))) (Vector 0 0 1) = 1"
    by (simp add: normalize_def length_vector_def vec_unfold)
  have "trace \<lparr>ray_point = Vector 0 0 10, ray_vector = Vector 0 0 (-1)\<rparr> two_light_scene 0 =
    Some (surface \<lparr>ray_point = Vector 0 0 10, ray_vector = Vector 0 0 (-1)\<rparr> two_light_scene
            test_sphere (Vector 0 0 1) (Vector 0 0 1) 0)"
    by (simp add: trace.simps hit Let_def p n)
  also have "surface \<lparr>ray_point = Vector 0 0 10, ray_vector = Vector 0 0 (-1)\<rparr> two_light_scene
            test_sphere (Vector 0 0 1) (Vector 0 0 1) 0 =
     add3 ZERO (scale WHITE (2 * 1)) (scale WHITE 0)"
    by (simp add: surface.simps Let_def visible_top c)
  finally show ?thesis by (simp add: vec_unfold)
qed

section \<open>Properties of the tracer\<close>

text \<open>
  C1: \<open>trace\<close> is total and returns a colour at every active depth
  \<open>0..3\<close>; beyond depth 3 it returns \<open>undefined\<close> (no contribution).
  In particular the recursion through mirror reflections always ends.
\<close>

theorem trace_None_iff: "trace r sc depth = None \<longleftrightarrow> 3 < depth"
  by (subst trace.simps) (auto simp: Let_def split: option.splits prod.splits)

text \<open>C23: a ray that hits nothing gets the background colour \<open>WHITE\<close> at every active depth.\<close>

theorem trace_miss:
  "intersectScene r sc = None \<Longrightarrow> depth \<le> 3 \<Longrightarrow> trace r sc depth = Some WHITE"
  by (simp add: trace.simps)

theorem trace_miss_witness:
  "trace \<lparr>ray_point = Vector 0 0 20, ray_vector = Vector 1 0 0\<rparr> occluder_scene 0 = Some WHITE"
proof -
  have "intersectScene \<lparr>ray_point = Vector 0 0 20, ray_vector = Vector 1 0 0\<rparr> occluder_scene = None"
    by (simp add: intersectScene_def intersection_def vec_unfold)
  then show ?thesis using trace_miss by simp
qed

text \<open>
  C12: the lights loop computes the sum, over the visible lights in order, of
  the positive parts of the cosines between the light direction and the
  normal; back-facing lights add nothing and the sum is not clamped.
\<close>

theorem lambert_loop_sum:
  "lambert_loop sc p n ls acc =
     acc + sum_list (map (\<lambda>l. max 0 (dotProduct (normalize (subtract l p)) n))
                         (filter (isLightVisible p sc) ls))"
  by (induction ls arbitrary: acc) (auto simp: Let_def max_def)

text \<open>
  With a unit normal, the diffuse amount lies between \<open>0\<close> and the
  number of lights: each light contributes at most \<open>1\<close>, so with more than
  one light it can exceed \<open>1\<close>.
\<close>

theorem lambert_loop_bounds:
  "length_vector n = 1 \<Longrightarrow>
     0 \<le> lambert_loop sc p n ls 0 \<and> lambert_loop sc p n ls 0 \<le> real (length ls)"
proof -
  assume "length_vector n = 1"
  from lambert_loop_bounds_acc [OF this, where acc = 0 and sc = sc and p = p and ls = ls]
  show ?thesis by simp
qed

theorem lambert_loop_bounds_witness:
  "0 \<le> lambert_loop two_light_scene (Vector 0 0 1) UP [Vector 0 0 5, Vector 0 0 5] 0 \<and>
   lambert_loop two_light_scene (Vector 0 0 1) UP [Vector 0 0 5, Vector 0 0 5] 0 \<le> 2"
proof -
  have "length_vector UP = 1" by (simp add: length_vector_def UP_def dotProduct_def)
  from lambert_loop_bounds [OF this, where sc = two_light_scene and p = "Vector 0 0 1"
      and ls = "[Vector 0 0 5, Vector 0 0 5]"]
  show ?thesis by (simp del: lambert_loop.simps)
qed

text \<open>
  C24: if every object has a non-negative colour and non-negative
  coefficients, every colour \<open>trace\<close> returns is non-negative in each
  channel (an invariant of the mutual recursion).
\<close>

theorem trace_colour_nonneg:
  "list_all material_ok (objects sc) \<Longrightarrow> trace r sc depth = Some c \<Longrightarrow> nonneg_vec c"
  by (rule trace_surface_nonneg(1))

theorem trace_colour_nonneg_witness:
  "nonneg_vec (Vector 510 510 510)"
proof -
  have "list_all material_ok (objects two_light_scene)"
    by (simp add: material_ok_def nonneg_vec_def WHITE_def)
  from trace_colour_nonneg [OF this two_light_trace] show ?thesis .
qed

text \<open>
  Colours are not clamped: a white sphere lit head-on by two lights
  (lambert 1, no specular or ambient term) is traced to \<open>(510, 510, 510)\<close>,
  beyond the byte range of the pixel buffer.
\<close>

theorem trace_colour_exceeds_255:
  "\<exists>c. trace \<lparr>ray_point = Vector 0 0 10, ray_vector = Vector 0 0 (-1)\<rparr> two_light_scene 0 = Some c
       \<and> 255 < vx c \<and> 255 < vy c \<and> 255 < vz c"
  using two_light_trace by simp

text \<open>
  C22: at the last active depth, 3, a surface adds no reflected colour, even
  on a mirror: the reflected ray is traced at depth 4, which returns nothing.
\<close>

theorem surface_last_depth:
  "3 \<le> depth \<Longrightarrow> surface r sc obj p n depth =
     add3 ZERO (scale (color obj) ((if lambert obj \<noteq> 0 then lambert_loop sc p n (lights sc) 0 else 0) * lambert obj))
       (scale (color obj) (ambient obj))"
  by (simp add: surface.simps trace_beyond Let_def)
theorem surface_last_depth_witness:
  "surface \<lparr>ray_point = Vector 0 0 10, ray_vector = Vector 0 0 (-1)\<rparr> two_light_scene
     (test_sphere\<lparr>specular := 1\<rparr>) (Vector 0 0 1) (Vector 0 0 1) 3 =
   add3 ZERO (scale WHITE (lambert_loop two_light_scene (Vector 0 0 1) (Vector 0 0 1)
                             (lights two_light_scene) 0 * 1))
     (scale WHITE 0)"
  using surface_last_depth [of 3] by simp

text \<open>
  C15: below depth 3, a surface with a non-zero specular coefficient adds the
  colour traced along the reflected ray one level deeper, scaled by the
  coefficient.
\<close>

theorem surface_reflects:
  assumes "depth < 3" and "specular obj \<noteq> 0"
  shows "\<exists>c. trace \<lparr>ray_point = p, ray_vector = reflectThrough (ray_vector r) n\<rparr> sc (Suc depth) = Some c
    \<and> surface r sc obj p n depth =
        add3 (add ZERO (scale c (specular obj)))
          (scale (color obj) ((if lambert obj \<noteq> 0 then lambert_loop sc p n (lights sc) 0 else 0)
                              * lambert obj))
          (scale (color obj) (ambient obj))"
proof -
  obtain c where c: "trace \<lparr>ray_point = p, ray_vector = reflectThrough (ray_vector r) n\<rparr> sc (Suc depth) = Some c"
    using trace_defined [of "Suc depth"] assms(1) by fastforce
  with assms(2) show ?thesis by (simp add: surface.simps Let_def)
qed

theorem surface_reflects_witness:
  "\<exists>c. trace \<lparr>ray_point = Vector 0 0 1, ray_vector = reflectThrough (Vector 0 0 (-1)) (Vector 0 0 1)\<rparr>
          two_light_scene 1 = Some c
    \<and> surface \<lparr>ray_point = Vector 0 0 10, ray_vector = Vector 0 0 (-1)\<rparr> two_light_scene
        (test_sphere\<lparr>specular := 1\<rparr>) (Vector 0 0 1) (Vector 0 0 1) 0 =
        add3 (add ZERO (scale c 1))
          (scale WHITE (lambert_loop two_light_scene (Vector 0 0 1) (Vector 0 0 1)
                          (lights two_light_scene) 0 * 1))
          (scale WHITE 0)"
  using surface_reflects [where depth = 0 and obj = "test_sphere\<lparr>specular := 1\<rparr>"
      and p = "Vector 0 0 1" and r = "\<lparr>ray_point = Vector 0 0 10, ray_vector = Vector 0 0 (-1)\<rparr>"
      and n = "Vector 0 0 1" and sc = two_light_scene]
  by (simp del: lambert_loop.simps)

text \<open>Tracing between the two mirrors, one bounce at a time.\<close>

lemma mirror_pair_hit0:
  "intersectScene \<lparr>ray_point = Vector 0 0 0, ray_vector = Vector 0 0 (-1)\<rparr> (mirror_pair c a) =
   Some (-6, objects (mirror_pair c a) ! 1)"
  by (simp add: intersectScene_def intersection_def Let_def vec_unfold)

lemma mirror_pair_hit1:
  "intersectScene \<lparr>ray_point = Vector 0 0 6, ray_vector = Vector 0 0 (-1)\<rparr> (mirror_pair c a) =
   Some (0, objects (mirror_pair c a) ! 1)"
  by (simp add: intersectScene_def intersection_def Let_def vec_unfold)

lemma mirror_pair_normal:
  "normal (objects (mirror_pair c a) ! 1) (Vector 0 0 6) = Vector 0 0 1"
  by (simp add: normal_def normalize_def length_vector_def vec_unfold)

lemma mirror_pair_reflect:
  "reflectThrough (Vector 0 0 (-1)) (Vector 0 0 1) = Vector 0 0 (-1)"
  by (simp add: reflectThrough_def vec_unfold)

text \<open>
  A ray along \<open>-z\<close> that meets the far mirror at \<open>(0, 0, 6)\<close> is shaded
  there: its colour is the ambient term plus the colour of the reflected ray,
  which starts at \<open>(0, 0, 6)\<close> and goes along \<open>-z\<close> again.
\<close>

lemma mirror_pair_step:
  assumes "depth \<le> 3" and "ray_vector r = Vector 0 0 (-1)"
    and "intersectScene r (mirror_pair c a) = Some (d, objects (mirror_pair c a) ! 1)"
    and "ray_at r d = Vector 0 0 6"
  shows "trace r (mirror_pair c a) depth =
    Some (case trace \<lparr>ray_point = Vector 0 0 6, ray_vector = Vector 0 0 (-1)\<rparr> (mirror_pair c a) (depth + 1) of
            None \<Rightarrow> scale c a | Some v \<Rightarrow> v + scale c a)"
proof -
  define B where "B = objects (mirror_pair c a) ! 1"
  have t: "trace r (mirror_pair c a) depth =
      Some (surface r (mirror_pair c a) B (Vector 0 0 6) (Vector 0 0 1) depth)"
    unfolding trace.simps [of r "mirror_pair c a" depth]
    using assms mirror_pair_normal by (simp add: B_def Let_def)
  have B: "lambert B = 0" "specular B = 1" "ambient B = a" "color B = c" by (simp_all add: B_def)
  show ?thesis
    unfolding t surface.simps [of r "mirror_pair c a" B]
    by (simp add: B assms(2) mirror_pair_reflect vector_eq_iff vec_unfold split: option.split)
qed

lemma mirror_pair_from_6:
  "depth \<le> 3 \<Longrightarrow> trace \<lparr>ray_point = Vector 0 0 6, ray_vector = Vector 0 0 (-1)\<rparr> (mirror_pair c a) depth =
     Some (scale c (real (4 - depth) * a))"
proof (induction "3 - depth" arbitrary: depth)
  case 0
  then have "depth = 3" by simp
  then show ?case
    using mirror_pair_step [OF 0(2) _ mirror_pair_hit1] trace_beyond [of 4]
    by (simp add: ray_at_def vec_unfold)
next
  case (Suc n)
  then have "trace \<lparr>ray_point = Vector 0 0 6, ray_vector = Vector 0 0 (-1)\<rparr> (mirror_pair c a) (depth + 1) =
      Some (scale c (real (4 - (depth + 1)) * a))" by simp
  with Suc(3) show ?case
    using mirror_pair_step [OF Suc(3) _ mirror_pair_hit1]
    by (simp add: ray_at_def vector_eq_iff vec_unfold of_nat_diff algebra_simps)
qed

text \<open>
  C2: between two facing mirrors the recursion shades exactly the surfaces
  at depths \<open>depth\<close> to 3 and stops: a ray traced from between them at any
  depth up to 3 has the colour \<open>(4 - depth) * a * c\<close>, so from the camera
  (depth 0) exactly four surfaces contribute. The first hit is the sphere
  behind the ray's origin, at distance \<open>-6\<close>, since hits are not filtered
  by sign; every reflection then meets that sphere again at distance \<open>0\<close>.
\<close>

theorem mirror_pair_trace:
  assumes "depth \<le> 3"
  shows "trace \<lparr>ray_point = Vector 0 0 0, ray_vector = Vector 0 0 (-1)\<rparr> (mirror_pair c a) depth =
           Some (scale c (real (4 - depth) * a))"
proof -
  have t: "trace \<lparr>ray_point = Vector 0 0 6, ray_vector = Vector 0 0 (-1)\<rparr> (mirror_pair c a) (depth + 1) =
      (if depth = 3 then None else Some (scale c (real (4 - (depth + 1)) * a)))"
    using assms mirror_pair_from_6 [of "depth + 1" c a] trace_beyond [of "depth + 1"] by auto
  show ?thesis
    using mirror_pair_step [OF assms _ mirror_pair_hit0] assms t
    by (simp add: ray_at_def vector_eq_iff vec_unfold of_nat_diff algebra_simps split: if_splits)
qed

theorem mirror_pair_trace_witness:
  "trace \<lparr>ray_point = Vector 0 0 0, ray_vector = Vector 0 0 (-1)\<rparr> (mirror_pair (Vector 1 1 1) 1) 0 =
     Some (Vector 4 4 4)"
  using mirror_pair_trace [of 0 "Vector 1 1 1" 1] by (simp add: vec_unfold)

end
