(* ===== verification/Renderer.thy ===== *)
theory Renderer
  imports Tracer
begin

text \<open>
  \<open>render\<close> of src/src/main.js. The camera frame and pixel steps computed
  once before the loops are the record \<open>camera_frame\<close>; the nested
  \<open>for\<close> loops over \<open>x\<close> (outer) and \<open>y\<close> (inner) are \<open>render_rows\<close> and
  \<open>render_column\<close>; one iteration is \<open>render_pixel\<close>. The pixel buffer
  \<open>data.data\<close> is a \<open>Uint8ClampedArray\<close>: a store converts the number
  with ECMAScript's ToUint8Clamp (clamp to \<open>[0, 255]\<close>, round half to
  even) and a store out of bounds is ignored; both are modelled from the
  ECMAScript specification, since that code is the platform's, not the
  repository's. The buffer is passed in and returned instead of being
  reached through \<open>scene.data\<close>; \<open>putImageData\<close> (display) is not
  modelled. Reading \<open>color.x\<close> of an \<open>undefined\<close> trace result would throw
  a \<open>TypeError\<close>: that is the error branch of \<open>render_pixel\<close>, shown
  unreachable below.
\<close>

record camera_frame =
  eyeVector :: vector
  right :: vector
  up :: vector
  halfWidth :: real
  halfHeight :: real
  pixelWidth :: "real option"
  pixelHeight :: "real option"

definition render_setup :: "scene \<Rightarrow> camera_frame" where
  "render_setup sc =
     (let cam = camera sc;
          eyeVector = normalize (subtract (camera_vector cam) (camera_point cam));
          right = normalize (crossProduct eyeVector UP);
          up = normalize (crossProduct right eyeVector);
          fovRadians = pi * (fieldOfView cam / 2) / 180;
          heightWidthRatio = real (height sc) / real (width sc);
          halfWidth = tan fovRadians;
          halfHeight = heightWidthRatio * halfWidth;
          cameraWidth = halfWidth * 2;
          cameraHeight = halfHeight * 2;
          pixelWidth = (if real (width sc) - 1 = 0 then None
                        else Some (cameraWidth / (real (width sc) - 1)));
          pixelHeight = (if real (height sc) - 1 = 0 then None
                         else Some (cameraHeight / (real (height sc) - 1)))
      in \<lparr>eyeVector = eyeVector, right = right, up = up, halfWidth = halfWidth,
          halfHeight = halfHeight, pixelWidth = pixelWidth, pixelHeight = pixelHeight\<rparr>)"

definition pixel_ray :: "scene \<Rightarrow> camera_frame \<Rightarrow> nat \<Rightarrow> nat \<Rightarrow> ray" where
  "pixel_ray sc fr x y =
     (let xcomp = (case pixelWidth fr of
                     None \<Rightarrow> ZERO
                   | Some pw \<Rightarrow> scale (right fr) (real x * pw - halfWidth fr));
          ycomp = (case pixelHeight fr of
                     None \<Rightarrow> ZERO
                   | Some ph \<Rightarrow> scale (up fr) (real y * ph - halfHeight fr))
      in \<lparr>ray_point = camera_point (camera sc),
          ray_vector = normalize (add3 (eyeVector fr) xcomp ycomp)\<rparr>)"

text \<open>ECMAScript ToUint8Clamp, the conversion of a \<open>Uint8ClampedArray\<close> store.\<close>

definition ToUint8Clamp :: "real \<Rightarrow> byte" where
  "ToUint8Clamp n =
     (if n \<le> 0 then 0
      else if 255 \<le> n then 255
      else (let f = \<lfloor>n\<rfloor>
            in if f + 1 / 2 < n then word_of_int (f + 1)
               else if n < f + 1 / 2 then word_of_int f
               else if even f then word_of_int f else word_of_int (f + 1)))"

definition ta_set :: "byte list \<Rightarrow> nat \<Rightarrow> byte \<Rightarrow> byte list" where
  "ta_set buf i v = (if i < length buf then buf[i := v] else buf)"

text \<open>The buffer offset of pixel \<open>(x, y)\<close>: \<open>const index = (x * 4) + (y * width * 4)\<close>.\<close>

definition pixel_index :: "nat \<Rightarrow> nat \<Rightarrow> nat \<Rightarrow> nat" where
  "pixel_index w x y = x * 4 + y * w * 4"

definition render_pixel ::
  "scene \<Rightarrow> camera_frame \<Rightarrow> nat \<Rightarrow> nat \<Rightarrow> byte list \<Rightarrow> error + byte list" where
  "render_pixel sc fr x y buf =
     (case trace (pixel_ray sc fr x y) sc 0 of
        None \<Rightarrow> Inl ColorUndefined
      | Some col \<Rightarrow>
          (let index = pixel_index (width sc) x y;
               b0 = ta_set buf (index + 0) (ToUint8Clamp (vx col));
               b1 = ta_set b0 (index + 1) (ToUint8Clamp (vy col));
               b2 = ta_set b1 (index + 2) (ToUint8Clamp (vz col))
           in Inr (ta_set b2 (index + 3) 255)))"

fun render_column ::
  "scene \<Rightarrow> camera_frame \<Rightarrow> nat \<Rightarrow> nat list \<Rightarrow> byte list \<Rightarrow> error + byte list" where
  "render_column sc fr x [] buf = Inr buf"
| "render_column sc fr x (y # ys) buf =
     (case render_pixel sc fr x y buf of
        Inl e \<Rightarrow> Inl e
      | Inr buf' \<Rightarrow> render_column sc fr x ys buf')"

fun render_rows :: "scene \<Rightarrow> camera_frame \<Rightarrow> nat list \<Rightarrow> byte list \<Rightarrow> error + byte list" where
  "render_rows sc fr [] buf = Inr buf"
| "render_rows sc fr (x # xs) buf =
     (case render_column sc fr x [0..<height sc] buf of
        Inl e \<Rightarrow> Inl e
      | Inr buf' \<Rightarrow> render_rows sc fr xs buf')"

definition render :: "scene \<Rightarrow> byte list \<Rightarrow> error + byte list" where
  "render sc data = render_rows sc (render_setup sc) [0..<width sc] data"

text \<open>
  \<open>context.getImageData(0, 0, width, height)\<close> on a canvas nothing has been
  drawn on: \<open>width * height\<close> pixels of transparent black, four bytes each; a
  zero width or height throws an \<open>IndexSizeError\<close> (HTML standard).
\<close>

definition getImageData :: "nat \<Rightarrow> nat \<Rightarrow> error + byte list" where
  "getImageData w h = (if w = 0 \<or> h = 0 then Inl IndexSizeError else Inr (replicate (w * h * 4) 0))"

text \<open>A one-pixel canvas with nothing in view: its one ray meets no object.\<close>

abbreviation blank_scene :: scene where
  "blank_scene \<equiv> \<lparr>width = 1, height = 1,
     camera = \<lparr>camera_point = Vector 0 0 20, fieldOfView = 90, camera_vector = ZERO\<rparr>,
     lights = [], objects = []\<rparr>"

section \<open>Specification of the image\<close>

text \<open>
  The four bytes the program means to store for the pixel \<open>(x, y)\<close>, and
  the pixel that owns byte \<open>i\<close> of a row-major RGBA buffer of the given width.
\<close>

definition pixel_bytes :: "scene \<Rightarrow> camera_frame \<Rightarrow> nat \<Rightarrow> nat \<Rightarrow> byte list" where
  "pixel_bytes sc fr x y =
     (case trace (pixel_ray sc fr x y) sc 0 of
        None \<Rightarrow> [0, 0, 0, 255]
      | Some c \<Rightarrow> [ToUint8Clamp (vx c), ToUint8Clamp (vy c), ToUint8Clamp (vz c), 255])"

definition owner :: "nat \<Rightarrow> nat \<Rightarrow> nat \<times> nat" where
  "owner w i = (i div 4 mod w, i div 4 div w)"

section \<open>Helper lemmas\<close>

lemma ta_set_length [simp]: "length (ta_set buf i v) = length buf"
  by (simp add: ta_set_def)

lemma ta_set_nth: "j < length buf \<Longrightarrow> ta_set buf i v ! j = (if i = j then v else buf ! j)"
  by (simp add: ta_set_def)

lemma pixel_bytes_alpha: "pixel_bytes sc fr x y ! 3 = 255"
  by (simp add: pixel_bytes_def split: option.splits)

lemma render_pixel_nth:
  "\<exists>buf'. render_pixel sc fr x y buf = Inr buf' \<and> length buf' = length buf \<and>
     (\<forall>j < length buf. buf' ! j =
        (if j div 4 = x + y * width sc then pixel_bytes sc fr x y ! (j mod 4) else buf ! j))"
proof -
  obtain c where c: "trace (pixel_ray sc fr x y) sc 0 = Some c"
    using trace_defined [of 0] by blast
  define m where "m = x + y * width sc"
  have idx: "x * 4 + y * width sc * 4 = 4 * m" by (simp add: m_def)
  have "\<forall>j < length buf.
          ta_set (ta_set (ta_set (ta_set buf (4 * m + 0) (ToUint8Clamp (vx c))) (4 * m + 1)
            (ToUint8Clamp (vy c))) (4 * m + 2) (ToUint8Clamp (vz c))) (4 * m + 3) 255 ! j =
          (if j div 4 = m then [ToUint8Clamp (vx c), ToUint8Clamp (vy c), ToUint8Clamp (vz c), 255] ! (j mod 4)
           else buf ! j)"
  proof (intro allI impI)
    fix j assume "j < length buf"
    moreover have "Suc (4 * m) mod 4 = 1" "Suc (Suc (4 * m)) mod 4 = 2"
      "Suc (Suc (Suc (4 * m))) mod 4 = 3" by presburger+
    ultimately show "ta_set (ta_set (ta_set (ta_set buf (4 * m + 0) (ToUint8Clamp (vx c))) (4 * m + 1)
            (ToUint8Clamp (vy c))) (4 * m + 2) (ToUint8Clamp (vz c))) (4 * m + 3) 255 ! j =
          (if j div 4 = m then [ToUint8Clamp (vx c), ToUint8Clamp (vy c), ToUint8Clamp (vz c), 255] ! (j mod 4)
           else buf ! j)"
      unfolding quad_cases by (auto simp: ta_set_nth)
  qed
  then show ?thesis
    by (simp add: render_pixel_def pixel_index_def c idx Let_def pixel_bytes_def m_def [symmetric])
qed


lemma render_column_nth:
  assumes "x < width sc"
  shows "\<exists>buf'. render_column sc fr x ys buf = Inr buf' \<and> length buf' = length buf \<and>
     (\<forall>j < length buf. buf' ! j =
        (if j div 4 mod width sc = x \<and> j div 4 div width sc \<in> set ys
         then pixel_bytes sc fr x (j div 4 div width sc) ! (j mod 4) else buf ! j))"
proof (induction ys arbitrary: buf)
  case Nil
  then show ?case by simp
next
  case (Cons y ys)
  obtain b1 where b1: "render_pixel sc fr x y buf = Inr b1" "length b1 = length buf"
    and n1: "\<forall>j < length buf. b1 ! j =
        (if j div 4 = x + y * width sc then pixel_bytes sc fr x y ! (j mod 4) else buf ! j)"
    using render_pixel_nth by blast
  obtain b2 where b2: "render_column sc fr x ys b1 = Inr b2" "length b2 = length b1"
    and n2: "\<forall>j < length b1. b2 ! j =
        (if j div 4 mod width sc = x \<and> j div 4 div width sc \<in> set ys
         then pixel_bytes sc fr x (j div 4 div width sc) ! (j mod 4) else b1 ! j)"
    using Cons.IH by blast
  have dec: "j div 4 = x + y * width sc \<longleftrightarrow> j div 4 mod width sc = x \<and> j div 4 div width sc = y" for j
    using assms by (rule div_mod_decompose)
  show ?case
    using b1 b2 n1 n2 by (auto simp: dec)
qed

lemma render_rows_nth:
  assumes "\<forall>x \<in> set xs. x < width sc"
  shows "\<exists>buf'. render_rows sc fr xs buf = Inr buf' \<and> length buf' = length buf \<and>
     (\<forall>j < length buf. buf' ! j =
        (if j div 4 mod width sc \<in> set xs \<and> j div 4 div width sc < height sc
         then pixel_bytes sc fr (j div 4 mod width sc) (j div 4 div width sc) ! (j mod 4)
         else buf ! j))"
  using assms
proof (induction xs arbitrary: buf)
  case Nil
  then show ?case by simp
next
  case (Cons x xs)
  then have x: "x < width sc" by simp
  obtain b1 where b1: "render_column sc fr x [0..<height sc] buf = Inr b1" "length b1 = length buf"
    and n1: "\<forall>j < length buf. b1 ! j =
        (if j div 4 mod width sc = x \<and> j div 4 div width sc \<in> set [0..<height sc]
         then pixel_bytes sc fr x (j div 4 div width sc) ! (j mod 4) else buf ! j)"
    using render_column_nth [OF x] by blast
  obtain b2 where b2: "render_rows sc fr xs b1 = Inr b2" "length b2 = length b1"
    and n2: "\<forall>j < length b1. b2 ! j =
        (if j div 4 mod width sc \<in> set xs \<and> j div 4 div width sc < height sc
         then pixel_bytes sc fr (j div 4 mod width sc) (j div 4 div width sc) ! (j mod 4)
         else b1 ! j)"
    using Cons.IH [of b1] Cons.prems by auto
  show ?case
    using b1 b2 n1 n2 by auto
qed

lemma owner_in_frame:
  assumes "i < w * h * (4::nat)"
  shows "i div 4 mod w < w \<and> i div 4 div w < h"
proof -
  have "i div 4 < w * h" using assms by linarith
  then have "0 < w" by (cases w) auto
  with \<open>i div 4 < w * h\<close> show ?thesis by (simp add: less_mult_imp_div_less mult.commute)
qed

lemma owner_eq_iff: "x < w \<Longrightarrow> owner w j = (x, y) \<longleftrightarrow> j div 4 = x + y * w"
  by (simp add: owner_def div_mod_decompose)

text \<open>The bytes \<open>render\<close> stores at the offset of pixel \<open>(x, y)\<close>.\<close>

lemma render_byte:
  assumes "render sc data = Inr buf" and "length data = width sc * height sc * 4"
    and "x < width sc" and "y < height sc" and "c < 4"
  shows "buf ! (pixel_index (width sc) x y + c) = pixel_bytes sc (render_setup sc) x y ! c"
proof -
  define j where "j = pixel_index (width sc) x y + c"
  define m where "m = x + y * width sc"
  have j: "j = 4 * m + c" by (simp add: j_def m_def pixel_index_def)
  then have "j div 4 = m" "j mod 4 = c" using assms(5) by simp_all
  then have dm: "j div 4 = x + y * width sc" "j mod 4 = c" by (simp_all add: m_def)
  then have o: "j div 4 mod width sc = x" "j div 4 div width sc = y"
    using assms(3) by (simp_all add: div_mod_decompose [symmetric])
  have "x + y * width sc < width sc * height sc"
  proof -
    have "x + y * width sc < width sc + y * width sc" using assms(3) by simp
    also have "\<dots> \<le> width sc * height sc" using assms(4)
      by (metis add.commute mult.commute mult_Suc_right Suc_leI mult_le_mono2)
    finally show ?thesis .
  qed
  then have "j < length data" using j assms(2,5) by (simp add: m_def)
  moreover obtain b where "render sc data = Inr b" and "\<forall>j < length data. b ! j =
        (if j div 4 mod width sc \<in> set [0..<width sc] \<and> j div 4 div width sc < height sc
         then pixel_bytes sc (render_setup sc) (j div 4 mod width sc) (j div 4 div width sc) ! (j mod 4)
         else data ! j)"
    using render_rows_nth [of "[0..<width sc]" sc "render_setup sc" data] by (auto simp: render_def)
  ultimately show ?thesis using assms(1,3,4) o dm by (simp add: j_def)
qed

lemma frame_orthonormal:
  assumes "camera_vector (camera sc) \<noteq> camera_point (camera sc)"
    and "crossProduct (eyeVector (render_setup sc)) UP \<noteq> ZERO"
  shows "dotProduct (up (render_setup sc)) (up (render_setup sc)) = 1 \<and>
         dotProduct (eyeVector (render_setup sc)) (up (render_setup sc)) = 0 \<and>
         dotProduct (right (render_setup sc)) (up (render_setup sc)) = 0"
proof -
  define e where "e = eyeVector (render_setup sc)"
  define r where "r = right (render_setup sc)"
  have e_def': "e = normalize (camera_vector (camera sc) - camera_point (camera sc))"
    by (simp add: e_def render_setup_def Let_def subtract_is_minus)
  have r_def': "r = normalize (crossProduct e UP)" by (simp add: r_def e_def render_setup_def Let_def)
  have u: "up (render_setup sc) = normalize (crossProduct r e)"
    by (simp add: r_def e_def render_setup_def Let_def)
  have ee: "dotProduct e e = 1" using assms(1) by (simp add: e_def' dot_normalize_self)
  have rr: "dotProduct r r = 1" using assms(2) by (simp add: r_def' e_def [symmetric] ZERO_is_zero dot_normalize_self)
  have re: "dotProduct r e = 0" by (simp add: r_def' dot_normalize_left)
  have "dotProduct (crossProduct r e) (crossProduct r e) = 1"
    using cross_of_orthogonal [OF re] ee rr by simp
  then have c: "crossProduct r e \<noteq> 0" by auto
  have "dotProduct (up (render_setup sc)) (up (render_setup sc)) = 1"
    by (simp add: u dot_normalize_self [OF c])
  moreover have "dotProduct e (up (render_setup sc)) = 0"
    by (simp add: u dot_normalize_right dot_comm [of e "crossProduct r e"])
  moreover have "dotProduct r (up (render_setup sc)) = 0"
    by (simp add: u dot_normalize_right dot_comm [of r "crossProduct r e"])
  ultimately show ?thesis by (simp add: e_def r_def)
qed


lemma occluder_frame:
  "eyeVector (render_setup occluder_scene) = Vector 0 0 (-1) \<and>
   halfHeight (render_setup occluder_scene) = 1"
  by (simp add: render_setup_def Let_def normalize_def length_vector_def vec_unfold tan_45)

text \<open>A store rounds a channel value in \<open>[0, 255]\<close> to a byte at most one half away.\<close>

lemma ToUint8Clamp_round_half:
  assumes "0 \<le> n" and "n \<le> 255"
  shows "\<bar>real (unat (ToUint8Clamp n)) - n\<bar> \<le> 1 / 2"
proof -
  consider "n = 0" | "n = 255" | "0 < n" "n < 255" using assms by linarith
  then show ?thesis
  proof cases
    case 1 then show ?thesis by (simp add: ToUint8Clamp_def)
  next
    case 2 then show ?thesis by (simp add: ToUint8Clamp_def)
  next
    case 3
    define f where "f = \<lfloor>n\<rfloor>"
    have f: "real_of_int f \<le> n" "n < real_of_int f + 1" by (simp_all add: f_def)
    have f0: "0 \<le> f" using 3 by (simp add: f_def)
    have f254: "f \<le> 254" using 3 f by linarith
    have u0: "real (unat (word_of_int f :: byte)) = real_of_int f"
      by (rule unat_byte_of_int) (use f0 f254 in simp_all)
    have u1: "real (unat (word_of_int (f + 1) :: byte)) = real_of_int f + 1"
      using unat_byte_of_int [of "f + 1"] f0 f254 by simp
    show ?thesis
      using 3 f u0 u1 by (auto simp: ToUint8Clamp_def Let_def f_def [symmetric])
  qed
qed


section \<open>Properties of the renderer\<close>

text \<open>
  C6: \<open>render\<close> never throws: every pixel's trace at depth 0 yields a
  colour, so \<open>color.x\<close> is never read from \<open>undefined\<close>; the buffer keeps
  its length.
\<close>

theorem render_never_fails: "\<exists>buf. render sc data = Inr buf \<and> length buf = length data"
  using render_rows_nth [of "[0..<width sc]" sc "render_setup sc" data] by (auto simp: render_def)

text \<open>
  C4: on a buffer of \<open>width * height * 4\<close> bytes, \<open>render\<close> writes every
  byte, and byte \<open>i\<close> is channel \<open>i mod 4\<close> of the pixel
  \<open>(i div 4 mod width, i div 4 div width)\<close>: the clamped and rounded colour
  traced for that pixel, alpha \<open>255\<close>. The index \<open>x * 4 + y * width * 4\<close>
  is thus the usual row-major layout with \<open>x\<close> the column.
\<close>

theorem render_image:
  assumes "length data = width sc * height sc * 4"
  shows "\<exists>buf. render sc data = Inr buf \<and> length buf = length data \<and>
     (\<forall>i < length buf. buf ! i =
        pixel_bytes sc (render_setup sc) (fst (owner (width sc) i)) (snd (owner (width sc) i)) ! (i mod 4))"
proof -
  obtain buf where r: "render sc data = Inr buf" "length buf = length data"
    and n: "\<forall>j < length data. buf ! j =
        (if j div 4 mod width sc \<in> set [0..<width sc] \<and> j div 4 div width sc < height sc
         then pixel_bytes sc (render_setup sc) (j div 4 mod width sc) (j div 4 div width sc) ! (j mod 4)
         else data ! j)"
    using render_rows_nth [of "[0..<width sc]" sc "render_setup sc" data]
    by (auto simp: render_def)
  have "\<forall>i < length buf. buf ! i =
        pixel_bytes sc (render_setup sc) (fst (owner (width sc) i)) (snd (owner (width sc) i)) ! (i mod 4)"
    using n r(2) owner_in_frame assms by (auto simp: owner_def)
  with r show ?thesis by blast
qed

theorem render_image_witness:
  "\<exists>buf. render occluder_scene (replicate 16 0) = Inr buf \<and> buf ! 3 = 255"
proof -
  have "length (replicate 16 (0::byte)) = width occluder_scene * height occluder_scene * 4" by simp
  from render_image [OF this] obtain buf where
    "render occluder_scene (replicate 16 0) = Inr buf" "length buf = 16"
    "\<forall>i < length buf. buf ! i = pixel_bytes occluder_scene (render_setup occluder_scene)
        (fst (owner 2 i)) (snd (owner 2 i)) ! (i mod 4)"
    by auto
  then show ?thesis by (auto simp: pixel_bytes_alpha)
qed

text \<open>
  C25: the first buffer row (canvas row 0, the top of the image) holds the
  pixels with \<open>y = 0\<close>, whose rays point below the view axis: for a
  non-degenerate camera and a canvas of more than one row the image is drawn
  upside down.
\<close>

theorem first_row_looks_down:
  assumes "camera_vector (camera sc) \<noteq> camera_point (camera sc)"
    and "crossProduct (eyeVector (render_setup sc)) UP \<noteq> ZERO"
    and "0 < halfHeight (render_setup sc)" and "x < width sc" and "1 < height sc"
  shows "dotProduct (ray_vector (pixel_ray sc (render_setup sc) x 0)) (up (render_setup sc)) < 0
         \<and> owner (width sc) (x * 4) = (x, 0)"
proof -
  define fr where "fr = render_setup sc"
  define xc where "xc = (case pixelWidth fr of None \<Rightarrow> ZERO
                           | Some pw \<Rightarrow> scale (right fr) (real x * pw - halfWidth fr))"
  obtain ph where ph: "pixelHeight fr = Some ph"
    using assms(5) by (simp add: fr_def render_setup_def Let_def)
  define v where "v = add3 (eyeVector fr) xc (scale (up fr) (real 0 * ph - halfHeight fr))"
  have o: "dotProduct (up fr) (up fr) = 1" "dotProduct (eyeVector fr) (up fr) = 0"
      "dotProduct (right fr) (up fr) = 0"
    using frame_orthonormal [OF assms(1,2)] by (simp_all add: fr_def)
  have dx: "dotProduct xc (up fr) = 0"
    by (cases "pixelWidth fr") (simp_all add: xc_def o ZERO_is_zero)
  have dv: "dotProduct v (up fr) = - halfHeight fr"
    by (simp add: v_def add3_is_plus o dx)
  then have "v \<noteq> 0" using assms(3) by (auto simp: fr_def)
  then have "0 < length_vector v" by (rule length_vector_pos)
  moreover have "ray_vector (pixel_ray sc fr x 0) = normalize v"
    by (simp add: pixel_ray_def v_def xc_def ph Let_def)
  ultimately have "dotProduct (ray_vector (pixel_ray sc fr x 0)) (up fr) < 0"
    using assms(3) dv by (simp add: dot_normalize_left fr_def divide_neg_pos)
  moreover have "owner (width sc) (x * 4) = (x, 0)" using assms(4) by (simp add: owner_def)
  ultimately show ?thesis by (simp add: fr_def)
qed

theorem first_row_looks_down_witness:
  "dotProduct (ray_vector (pixel_ray occluder_scene (render_setup occluder_scene) 0 0))
     (up (render_setup occluder_scene)) < 0 \<and> owner 2 0 = (0, 0)"
proof -
  have h: "camera_vector (camera occluder_scene) \<noteq> camera_point (camera occluder_scene)"
    by (simp add: ZERO_def)
  have c: "crossProduct (eyeVector (render_setup occluder_scene)) UP \<noteq> ZERO"
    using occluder_frame by (simp add: vec_unfold)
  have hh: "0 < halfHeight (render_setup occluder_scene)" using occluder_frame by simp
  from first_row_looks_down [OF h c hh, of 0] show ?thesis by simp
qed



text \<open>
  C18: the buffer offset of a pixel and the pixel owning a byte are inverse:
  byte \<open>i\<close> is channel \<open>c\<close> of pixel \<open>(x, y)\<close> exactly when
  \<open>i = index + c\<close> with \<open>index = x * 4 + y * width * 4\<close>.
\<close>

theorem pixel_index_owner:
  assumes "x < w" and "c < 4"
  shows "owner w i = (x, y) \<and> i mod 4 = c \<longleftrightarrow> i = pixel_index w x y + c"
proof -
  define m where "m = x + y * w"
  have idx: "pixel_index w x y + c = 4 * m + c" by (simp add: pixel_index_def m_def)
  have "i = 4 * m + c \<longleftrightarrow> i div 4 = m \<and> i mod 4 = c"
  proof
    assume "i = 4 * m + c"
    with assms(2) show "i div 4 = m \<and> i mod 4 = c" by simp
  next
    assume "i div 4 = m \<and> i mod 4 = c"
    then show "i = 4 * m + c" by (metis div_mult_mod_eq mult.commute)
  qed
  then show ?thesis by (simp add: owner_eq_iff [OF assms(1)] idx m_def)
qed

theorem pixel_index_owner_witness: "owner 2 15 = (1, 1) \<and> (15::nat) mod 4 = 3"
  using pixel_index_owner [of 1 2 3 15 1] by (simp add: pixel_index_def)

end
