(* ===== verification/Application.thy ===== *)
theory Application
  imports Renderer
begin

text \<open>
  src/application.js, the older single-file build of the same tracer. It
  carries its own copy of the \<open>Vector\<close> class (identical to
  src/src/vector.js, so the \<open>Vector\<close> theory models both), and its scene
  objects are plain object literals rather than \<open>Sphere\<close> instances: the
  free functions \<open>sphereIntersection\<close> and \<open>sphereNormal\<close> play the
  methods' part, and no constructor applies its \<open>||\<close> defaults. Its
  \<open>intersectScene\<close>, \<open>isLightVisible\<close>, \<open>surface\<close>, \<open>trace\<close> and
  \<open>render\<close> are copies of those of src/src/main.js calling these functions.
  The lemmas show the copies compute exactly what the modular build computes,
  so the two builds differ only in their demo scenes.
\<close>

definition sphereIntersection :: "sphere \<Rightarrow> ray \<Rightarrow> real option" where
  "sphereIntersection sphere r =
     (let eyeToCenter = subtract (point sphere) (ray_point r);
          v = dotProduct eyeToCenter (ray_vector r);
          eyeToObjectCenter = dotProduct eyeToCenter eyeToCenter;
          discriminant = radius sphere * radius sphere - eyeToObjectCenter + v * v
      in if discriminant < 0 then None else Some (v - sqrt discriminant))"

definition sphereNormal :: "sphere \<Rightarrow> vector \<Rightarrow> vector" where
  "sphereNormal sphere position = normalize (subtract position (point sphere))"

definition app_intersectScene :: "ray \<Rightarrow> scene \<Rightarrow> (real \<times> sphere) option" where
  "app_intersectScene r sc = closest_loop (\<lambda>obj. sphereIntersection obj r) (objects sc) None"

definition app_isLightVisible :: "vector \<Rightarrow> scene \<Rightarrow> vector \<Rightarrow> bool" where
  "app_isLightVisible p sc light =
     (case app_intersectScene \<lparr>ray_point = p, ray_vector = normalize (subtract p light)\<rparr> sc of
        None \<Rightarrow> True
      | Some (distance, _) \<Rightarrow> -0.005 < distance)"

fun app_lambert_loop :: "scene \<Rightarrow> vector \<Rightarrow> vector \<Rightarrow> vector list \<Rightarrow> real \<Rightarrow> real" where
  "app_lambert_loop sc pointAtTime n [] lambertAmount = lambertAmount"
| "app_lambert_loop sc pointAtTime n (lightPoint # ls) lambertAmount =
     (if \<not> app_isLightVisible pointAtTime sc lightPoint
      then app_lambert_loop sc pointAtTime n ls lambertAmount
      else (let contribution = dotProduct (normalize (subtract lightPoint pointAtTime)) n
            in app_lambert_loop sc pointAtTime n ls
                 (if 0 < contribution then lambertAmount + contribution else lambertAmount)))"

function app_trace :: "ray \<Rightarrow> scene \<Rightarrow> nat \<Rightarrow> vector option"
  and app_surface :: "ray \<Rightarrow> scene \<Rightarrow> sphere \<Rightarrow> vector \<Rightarrow> vector \<Rightarrow> nat \<Rightarrow> vector" where
  "app_trace r sc depth =
     (if 3 < depth then None
      else (case app_intersectScene r sc of
              None \<Rightarrow> Some WHITE
            | Some (distance, object) \<Rightarrow>
                (let pointAtTime = ray_at r distance
                 in Some (app_surface r sc object pointAtTime (sphereNormal object pointAtTime) depth))))"
| "app_surface r sc object pointAtTime n depth =
     (let lambertAmount =
            (if lambert object \<noteq> 0 then app_lambert_loop sc pointAtTime n (lights sc) 0 else 0);
          finalColor =
            (if specular object \<noteq> 0
             then (case app_trace \<lparr>ray_point = pointAtTime, ray_vector = reflectThrough (ray_vector r) n\<rparr>
                          sc (depth + 1) of
                     None \<Rightarrow> ZERO
                   | Some reflectedColor \<Rightarrow> add ZERO (scale reflectedColor (specular object)))
             else ZERO)
      in add3 finalColor (scale (color object) (lambertAmount * lambert object))
           (scale (color object) (ambient object)))"
  by pat_completeness auto
termination
  by (relation "measure (\<lambda>x. case x of
        Inl (_, _, d) \<Rightarrow> if 3 < d then 0 else 2 * (4 - d) + 2
      | Inr (_, _, _, _, _, d) \<Rightarrow> 2 * (4 - d) + 1)") auto

declare app_trace.simps [simp del] app_surface.simps [simp del]

definition app_render_pixel ::
  "scene \<Rightarrow> camera_frame \<Rightarrow> nat \<Rightarrow> nat \<Rightarrow> byte list \<Rightarrow> error + byte list" where
  "app_render_pixel sc fr x y buf =
     (case app_trace (pixel_ray sc fr x y) sc 0 of
        None \<Rightarrow> Inl ColorUndefined
      | Some col \<Rightarrow>
          (let index = x * 4 + y * width sc * 4;
               b0 = ta_set buf (index + 0) (ToUint8Clamp (vx col));
               b1 = ta_set b0 (index + 1) (ToUint8Clamp (vy col));
               b2 = ta_set b1 (index + 2) (ToUint8Clamp (vz col))
           in Inr (ta_set b2 (index + 3) 255)))"

fun app_render_column ::
  "scene \<Rightarrow> camera_frame \<Rightarrow> nat \<Rightarrow> nat list \<Rightarrow> byte list \<Rightarrow> error + byte list" where
  "app_render_column sc fr x [] buf = Inr buf"
| "app_render_column sc fr x (y # ys) buf =
     (case app_render_pixel sc fr x y buf of
        Inl e \<Rightarrow> Inl e
      | Inr buf' \<Rightarrow> app_render_column sc fr x ys buf')"

fun app_render_rows :: "scene \<Rightarrow> camera_frame \<Rightarrow> nat list \<Rightarrow> byte list \<Rightarrow> error + byte list" where
  "app_render_rows sc fr [] buf = Inr buf"
| "app_render_rows sc fr (x # xs) buf =
     (case app_render_column sc fr x [0..<height sc] buf of
        Inl e \<Rightarrow> Inl e
      | Inr buf' \<Rightarrow> app_render_rows sc fr xs buf')"

definition app_render :: "scene \<Rightarrow> byte list \<Rightarrow> error + byte list" where
  "app_render sc data = app_render_rows sc (render_setup sc) [0..<width sc] data"

text \<open>The demo scene of this build: spheres as object literals, used as written.\<close>

definition app_objects :: "sphere list" where
  "app_objects =
     [\<lparr>point = Vector 0 3.5 (-3), radius = 3, color = Vector 155 200 155,
       specular = 0.2, lambert = 0.7, ambient = 0.1\<rparr>,
      \<lparr>point = Vector (-4) 2 (-1), radius = 0.2, color = Vector 155 155 155,
       specular = 0.1, lambert = 0.9, ambient = 0.0\<rparr>,
      \<lparr>point = Vector (-4) 3 (-1), radius = 0.1, color = WHITE,
       specular = 0.2, lambert = 0.7, ambient = 0.1\<rparr>]"

definition app_scene :: "nat \<Rightarrow> nat \<Rightarrow> scene" where
  "app_scene w h =
     \<lparr>width = w, height = h,
      camera = \<lparr>camera_point = Vector 0 1.8 10, fieldOfView = 45, camera_vector = Vector 0 3 0\<rparr>,
      lights = [Vector (-30) (-10) 20],
      objects = app_objects\<rparr>"

text \<open>The legacy start-up callback (lines 226 to 278): image data, scene literal, render.\<close>

definition app_ready_callback :: "nat \<Rightarrow> nat \<Rightarrow> error + byte list" where
  "app_ready_callback w h =
     (case getImageData w h of
        Inl e \<Rightarrow> Inl e
      | Inr data \<Rightarrow> app_render (app_scene w h) data)"

section \<open>The legacy build computes what the modular build computes\<close>

lemma sphereIntersection_is_intersection: "sphereIntersection = intersection"
  by (intro ext) (simp add: sphereIntersection_def intersection_def)

lemma sphereNormal_is_normal: "sphereNormal = normal"
  by (intro ext) (simp add: sphereNormal_def normal_def)

lemma app_intersectScene_eq: "app_intersectScene = intersectScene"
  by (intro ext) (simp add: app_intersectScene_def intersectScene_def sphereIntersection_is_intersection)

lemma app_isLightVisible_eq: "app_isLightVisible = isLightVisible"
  by (intro ext) (simp add: app_isLightVisible_def isLightVisible_def app_intersectScene_eq shadow_ray_def)

lemma app_lambert_loop_eq: "app_lambert_loop sc p n ls acc = lambert_loop sc p n ls acc"
  by (induction ls arbitrary: acc) (simp_all add: app_isLightVisible_eq)

lemma app_trace_surface_eq:
  "app_trace r sc depth = trace r sc depth"
  "app_surface r sc obj p n depth = surface r sc obj p n depth"
proof (induction r sc depth and r sc obj p n depth rule: app_trace_app_surface.induct)
  case (1 r sc depth)
  then show ?case
    by (auto simp: app_trace.simps [of r sc depth] trace.simps [of r sc depth] app_intersectScene_eq
        sphereNormal_is_normal Let_def split: option.splits)
next
  case (2 r sc obj p n depth)
  then show ?case
    by (simp add: app_surface.simps [of r sc obj p n depth] surface.simps [of r sc obj p n depth]
        app_lambert_loop_eq Let_def)
qed

lemma app_render_pixel_eq: "app_render_pixel = render_pixel"
  by (intro ext) (simp add: app_render_pixel_def render_pixel_def pixel_index_def app_trace_surface_eq(1)
      split: option.split)

lemma app_render_column_eq: "app_render_column sc fr x ys buf = render_column sc fr x ys buf"
  by (induction ys arbitrary: buf) (simp_all add: app_render_pixel_eq split: sum.splits)

lemma app_render_rows_eq: "app_render_rows sc fr xs buf = render_rows sc fr xs buf"
  by (induction xs arbitrary: buf) (simp_all add: app_render_column_eq split: sum.splits)

section \<open>Properties of the legacy build\<close>

text \<open>
  The legacy \<open>trace\<close>, built on \<open>sphereIntersection\<close> and
  \<open>sphereNormal\<close>, returns the same colour as the modular \<open>trace\<close> for
  every ray, scene and depth.
\<close>

theorem app_trace_eq: "app_trace r sc depth = trace r sc depth"
  by (rule app_trace_surface_eq(1))

text \<open>C35: the legacy \<open>render\<close> writes the same buffer as the modular one.\<close>

theorem app_render_eq: "app_render sc data = render sc data"
  by (simp add: app_render_def render_def app_render_rows_eq)

text \<open>
  The two builds' demo scenes differ in one value: the second sphere is
  written with ambient \<open>0.0\<close> in both, which the object literal of
  src/application.js keeps and the \<open>Sphere\<close> constructor of
  src/src/sphere.js replaces by \<open>0.1\<close>; so the two builds render the demo
  differently although they trace identically.
\<close>

theorem demo_scenes_differ:
  "\<exists>sc. demo_scene w h = Inr sc \<and>
     app_scene w h = sc\<lparr>objects := (objects sc)[1 := (objects sc ! 1)\<lparr>ambient := 0\<rparr>]\<rparr> \<and>
     ambient (objects sc ! 1) = 0.1"
  by (simp add: demo_scene_def demo_objects_def Sphere_new_def Shape_new_def Let_def app_scene_def
      app_objects_def)

end
