(* ===== verification/RenderLoop.thy ===== *)
theory RenderLoop
  imports Renderer
begin

text \<open>
  The two \<open>for\<close> loops of \<open>render\<close> (src/src/main.js, lines 131 to 146) as
  a small-step machine: a state is the loop counters and the pixel buffer,
  or the end of the loops, or a thrown exception. One step is one test of a
  loop condition or one execution of the loop body. The functional model
  \<open>render_rows\<close>/\<open>render_column\<close> of the Renderer theory computes the same
  buffer: the machine refines it, and it is deterministic, terminating and
  never stuck before the end.
\<close>

datatype loop_state = Loop nat nat "byte list" | Done "byte list" | Thrown error

text \<open>
  \<open>outer_exit\<close>: the test \<open>x < width\<close> fails; \<open>inner_exit\<close>: the test
  \<open>y < height\<close> fails, so \<open>x += 1\<close> and the next inner loop starts at
  \<open>y = 0\<close> (the reset is done before the outer test, where \<open>y\<close> is dead);
  \<open>body\<close>: one pixel is traced and stored, then \<open>y += 1\<close>;
  \<open>body_throws\<close>: the body throws.
\<close>

inductive render_step :: "scene \<Rightarrow> camera_frame \<Rightarrow> loop_state \<Rightarrow> loop_state \<Rightarrow> bool"
  for sc :: scene and fr :: camera_frame where
  outer_exit: "\<not> x < width sc \<Longrightarrow> render_step sc fr (Loop x y buf) (Done buf)"
| inner_exit: "x < width sc \<Longrightarrow> \<not> y < height sc \<Longrightarrow>
     render_step sc fr (Loop x y buf) (Loop (x + 1) 0 buf)"
| body: "x < width sc \<Longrightarrow> y < height sc \<Longrightarrow> render_pixel sc fr x y buf = Inr buf' \<Longrightarrow>
     render_step sc fr (Loop x y buf) (Loop x (y + 1) buf')"
| body_throws: "x < width sc \<Longrightarrow> y < height sc \<Longrightarrow> render_pixel sc fr x y buf = Inl e \<Longrightarrow>
     render_step sc fr (Loop x y buf) (Thrown e)"

code_pred render_step .

inductive_cases render_step_LoopE: "render_step sc fr (Loop x y buf) s'"
inductive_cases render_step_DoneE [elim!]: "render_step sc fr (Done buf) s'"
inductive_cases render_step_ThrownE [elim!]: "render_step sc fr (Thrown e) s'"

text \<open>The start of the loops on the buffer \<open>data.data\<close>.\<close>

definition render_start :: "byte list \<Rightarrow> loop_state" where
  "render_start data = Loop 0 0 data"

text \<open>The variant: iterations left, counting the tests of the loop conditions.\<close>

fun loop_variant :: "scene \<Rightarrow> loop_state \<Rightarrow> nat" where
  "loop_variant sc (Loop x y buf) = (width sc - x) * (height sc + 1) + (height sc - y) + 1"
| "loop_variant sc (Done buf) = 0"
| "loop_variant sc (Thrown e) = 0"

text \<open>The loop invariant: the pixels visited so far, in the loops' order.\<close>

definition visited :: "nat \<Rightarrow> nat \<Rightarrow> nat \<times> nat \<Rightarrow> bool" where
  "visited x y p \<longleftrightarrow> fst p < x \<or> (fst p = x \<and> snd p < y)"

definition loop_inv :: "scene \<Rightarrow> camera_frame \<Rightarrow> byte list \<Rightarrow> loop_state \<Rightarrow> bool" where
  "loop_inv sc fr data s =
     (case s of
        Loop x y buf \<Rightarrow>
          x \<le> width sc \<and> y \<le> height sc \<and> (x = width sc \<longrightarrow> y = 0) \<and>
          length buf = length data \<and>
          (\<forall>j < length data. buf ! j =
             (if visited x y (owner (width sc) j) \<and> snd (owner (width sc) j) < height sc
              then pixel_bytes sc fr (fst (owner (width sc) j)) (snd (owner (width sc) j)) ! (j mod 4)
              else data ! j))
      | Done buf \<Rightarrow> length buf = length data \<and>
          (\<forall>j < length data. buf ! j =
             (if fst (owner (width sc) j) < width sc \<and> snd (owner (width sc) j) < height sc
              then pixel_bytes sc fr (fst (owner (width sc) j)) (snd (owner (width sc) j)) ! (j mod 4)
              else data ! j))
      | Thrown e \<Rightarrow> False)"

section \<open>Lemmas on the machine\<close>

lemma render_step_deterministic:
  assumes "render_step sc fr s s1" and "render_step sc fr s s2"
  shows "s1 = s2"
  using assms
proof (induction rule: render_step.induct)
  case outer_exit then show ?case by (auto elim: render_step_LoopE)
next
  case inner_exit then show ?case by (auto elim: render_step_LoopE)
next
  case body then show ?case by (auto elim: render_step_LoopE)
next
  case body_throws then show ?case by (auto elim: render_step_LoopE)
qed

lemma render_step_right_unique: "right_unique (render_step sc fr)"
  by (rule right_uniqueI) (rule render_step_deterministic)

lemma render_step_variant: "render_step sc fr s s' \<Longrightarrow> loop_variant sc s' < loop_variant sc s"
proof (induction rule: render_step.induct)
  case (inner_exit x y buf)
  then have "width sc - (x + 1) < width sc - x" and "height sc - y = 0" by auto
  then have "(width sc - (x + 1)) * (height sc + 1) + (height sc - 0) + 1 \<le> (width sc - x) * (height sc + 1)"
    by (metis Suc_leI add.commute add_Suc_right le_refl mult_Suc mult_le_mono1 plus_1_eq_Suc diff_zero)
  then show ?case by simp
next
  case (body x y buf buf')
  then show ?case by simp
qed simp_all

lemma render_step_Loop:
  "\<exists>s'. render_step sc fr (Loop x y buf) s'"
proof (cases "x < width sc")
  case True
  then show ?thesis
  proof (cases "y < height sc")
    case True
    with \<open>x < width sc\<close> show ?thesis
      by (cases "render_pixel sc fr x y buf") (auto intro: render_step.intros)
  qed (auto intro: render_step.intros)
qed (auto intro: render_step.intros)

lemma render_pixel_not_Inl [simp]: "render_pixel sc fr x y buf \<noteq> Inl e"
  using render_pixel_nth [of sc fr x y buf] by auto

lemma render_step_not_Thrown: "\<not> render_step sc fr s (Thrown e)"
  by (auto elim: render_step.cases)

lemma render_step_Done_final: "\<nexists>s'. render_step sc fr (Done buf) s'"
  by auto

text \<open>One run of the inner loop is the functional \<open>render_column\<close>.\<close>

lemma render_column_steps:
  assumes "x < width sc" and "render_column sc fr x [y..<height sc] buf = Inr buf'"
  shows "(render_step sc fr)\<^sup>*\<^sup>* (Loop x y buf) (Loop (x + 1) 0 buf')"
  using assms(2)
proof (induction "height sc - y" arbitrary: y buf)
  case 0
  then have "buf' = buf" and "\<not> y < height sc" by simp_all
  with render_step.inner_exit [OF assms(1), where fr = fr and y = y and buf = buf] show ?case by (simp add: r_into_rtranclp)
next
  case (Suc n)
  then have y: "y < height sc" by simp
  then obtain b1 where b1: "render_pixel sc fr x y buf = Inr b1"
    and r: "render_column sc fr x [Suc y..<height sc] b1 = Inr buf'"
    using Suc.prems by (auto simp: upt_conv_Cons split: sum.splits)
  have "(render_step sc fr)\<^sup>*\<^sup>* (Loop x (Suc y) b1) (Loop (x + 1) 0 buf')"
    using Suc.hyps(1) [of "Suc y"] Suc.hyps(2) r by simp
  moreover have "render_step sc fr (Loop x y buf) (Loop x (Suc y) b1)"
    using render_step.body [OF assms(1) y b1] by simp
  ultimately show ?case by (rule converse_rtranclp_into_rtranclp [rotated])
qed

text \<open>The outer loop from column \<open>x\<close> on is the functional \<open>render_rows\<close>.\<close>

lemma render_rows_steps:
  assumes "render_rows sc fr [x..<width sc] buf = Inr buf'"
  shows "(render_step sc fr)\<^sup>*\<^sup>* (Loop x 0 buf) (Done buf')"
  using assms
proof (induction "width sc - x" arbitrary: x buf)
  case 0
  then have "buf' = buf" and "\<not> x < width sc" by simp_all
  then show ?case by (simp add: r_into_rtranclp render_step.outer_exit)
next
  case (Suc n)
  then have x: "x < width sc" by simp
  then obtain b1 where b1: "render_column sc fr x [0..<height sc] buf = Inr b1"
    and r: "render_rows sc fr [Suc x..<width sc] b1 = Inr buf'"
    using Suc.prems by (auto simp: upt_conv_Cons split: sum.splits)
  have "(render_step sc fr)\<^sup>*\<^sup>* (Loop (Suc x) 0 b1) (Done buf')"
    using Suc.hyps(1) [of "Suc x"] Suc.hyps(2) r by simp
  with render_column_steps [OF x b1] show ?case by simp
qed

text \<open>From every state before the end the loops reach their end.\<close>

lemma render_steps_reach_Done:
  "\<exists>buf'. (render_step sc fr)\<^sup>*\<^sup>* (Loop x y buf) (Done buf')"
proof (induction "loop_variant sc (Loop x y buf)" arbitrary: x y buf rule: less_induct)
  case less
  obtain s' where s': "render_step sc fr (Loop x y buf) s'" using render_step_Loop by blast
  then have v: "loop_variant sc s' < loop_variant sc (Loop x y buf)" by (rule render_step_variant)
  show ?case
  proof (cases s')
    case (Loop x' y' buf')
    with less.hyps [OF v [unfolded Loop]] obtain b where "(render_step sc fr)\<^sup>*\<^sup>* s' (Done b)"
      by blast
    with s' show ?thesis by (blast intro: converse_rtranclp_into_rtranclp)
  next
    case (Done b)
    with s' show ?thesis by blast
  next
    case (Thrown e)
    with s' render_step_not_Thrown show ?thesis by blast
  qed
qed

lemma render_steps_not_Thrown:
  "(render_step sc fr)\<^sup>*\<^sup>* (Loop x y buf) s \<Longrightarrow> s \<noteq> Thrown e"
  by (induction rule: rtranclp_induct) (auto simp: render_step_not_Thrown)

text \<open>Each step keeps the loop invariant.\<close>

lemma visited_Suc_y: "visited x (Suc y) p \<longleftrightarrow> visited x y p \<or> p = (x, y)"
  by (cases p) (auto simp: visited_def)

lemma visited_next_column: "snd p < h \<Longrightarrow> visited (x + 1) 0 p \<longleftrightarrow> visited x h p"
  by (auto simp: visited_def)

lemma render_step_loop_inv:
  assumes "render_step sc fr s s'" and "loop_inv sc fr data s"
  shows "loop_inv sc fr data s'"
  using assms
proof (induction rule: render_step.induct)
  case (outer_exit x y buf)
  then have "x = width sc" "y = 0" by (auto simp: loop_inv_def)
  moreover have "visited (width sc) 0 (owner (width sc) j) \<longleftrightarrow> fst (owner (width sc) j) < width sc" for j
    by (simp add: visited_def)
  ultimately show ?case using outer_exit.prems by (simp add: loop_inv_def)
next
  case (inner_exit x y buf)
  then have "y = height sc" by (simp add: loop_inv_def)
  with inner_exit show ?case
    by (auto simp: loop_inv_def visited_next_column simp del: One_nat_def)
next
  case (body x y buf buf')
  from render_pixel_nth [of sc fr x y buf] body.hyps(3)
  have n: "length buf' = length buf" "\<forall>j < length buf. buf' ! j =
      (if j div 4 = x + y * width sc then pixel_bytes sc fr x y ! (j mod 4) else buf ! j)" by auto
  have "\<forall>j < length data. buf' ! j =
      (if visited x (Suc y) (owner (width sc) j) \<and> snd (owner (width sc) j) < height sc
       then pixel_bytes sc fr (fst (owner (width sc) j)) (snd (owner (width sc) j)) ! (j mod 4)
       else data ! j)"
    using body.prems n body.hyps(1,2)
    by (auto simp: loop_inv_def visited_Suc_y owner_eq_iff [symmetric, OF body.hyps(1)])
  with body n show ?case by (simp add: loop_inv_def)
next
  case (body_throws x y buf e)
  then show ?case by simp
qed

section \<open>Properties of the render loops\<close>

text \<open>
  The loops are the functional renderer: from the start state on the
  buffer \<open>data\<close>, the machine ends in \<open>Done buf\<close> exactly when \<open>render\<close>
  returns \<open>buf\<close>.
\<close>

theorem render_loop_refines_render:
  "(render_step sc (render_setup sc))\<^sup>*\<^sup>* (render_start data) (Done buf) \<longleftrightarrow>
   render sc data = Inr buf"
proof
  obtain b where b: "render sc data = Inr b"
    using render_rows_nth [of "[0..<width sc]" sc "render_setup sc" data] by (auto simp: render_def)
  then have run: "(render_step sc (render_setup sc))\<^sup>*\<^sup>* (render_start data) (Done b)"
    using render_rows_steps [of sc "render_setup sc" 0 data b] by (simp add: render_def render_start_def)
  assume run': "(render_step sc (render_setup sc))\<^sup>*\<^sup>* (render_start data) (Done buf)"
  have "Done buf = Done b"
    using render_step_right_unique run' render_step_Done_final run render_step_Done_final
    by (rule right_unique_final_unique)
  with b show "render sc data = Inr buf" by simp
next
  assume "render sc data = Inr buf"
  then show "(render_step sc (render_setup sc))\<^sup>*\<^sup>* (render_start data) (Done buf)"
    using render_rows_steps [of sc "render_setup sc" 0 data buf] by (simp add: render_def render_start_def)
qed

text \<open>
  C19: every state the loops reach satisfies the loop invariant: the counters
  stay in range, the buffer keeps its length, the bytes of the pixels visited
  so far hold their traced colour and every other byte is untouched; at the
  end every pixel of the canvas is written. No reachable state is a thrown
  exception.
\<close>

theorem render_loop_invariant:
  assumes "(render_step sc fr)\<^sup>*\<^sup>* (render_start data) s"
  shows "loop_inv sc fr data s"
  using assms
proof (induction rule: rtranclp_induct)
  case base
  then show ?case by (simp add: render_start_def loop_inv_def visited_def)
next
  case (step s s')
  from step.hyps(2) step.IH show ?case by (rule render_step_loop_inv)
qed

theorem render_loop_invariant_witness:
  "loop_inv occluder_scene (render_setup occluder_scene) (replicate 4 0) (render_start (replicate 4 0))"
  using render_loop_invariant [of occluder_scene "render_setup occluder_scene" "replicate 4 0" "render_start (replicate 4 0)"] by simp

text \<open>
  C20: the loops always finish: from every state reached from the start,
  the end state \<open>Done\<close> is reachable (the machine is never stuck before the
  end, since the body never throws).
\<close>

theorem render_loop_live:
  assumes "(render_step sc fr)\<^sup>*\<^sup>* (render_start data) s"
  shows "\<exists>buf. (render_step sc fr)\<^sup>*\<^sup>* s (Done buf)"
proof (cases s)
  case (Loop x y buf)
  then show ?thesis using render_steps_reach_Done by blast
next
  case (Done buf)
  then show ?thesis by blast
next
  case (Thrown e)
  with assms have "(render_step sc fr)\<^sup>*\<^sup>* (Loop 0 0 data) (Thrown e)"
    by (simp add: render_start_def)
  then show ?thesis using render_steps_not_Thrown by blast
qed

theorem render_loop_live_witness:
  "\<exists>buf. (render_step occluder_scene (render_setup occluder_scene))\<^sup>*\<^sup>* (render_start (replicate 4 0)) (Done buf)"
  using render_loop_live [of occluder_scene "render_setup occluder_scene" "replicate 4 0" "render_start (replicate 4 0)"] by simp

text \<open>
  C21: the loops terminate: the converse of the step relation is
  well-founded, so there is no infinite run. The variant counts the loop
  iterations left.
\<close>

theorem render_loop_terminates: "wfP (\<lambda>s' s. render_step sc fr s s')"
  using render_step_variant by (rule wfp_if_convertible_to_nat)

end
