(* ===== verification/PageStartup.thy ===== *)
theory PageStartup
  imports Renderer
begin

text \<open>
  Page start-up: \<open>onReady\<close> of src/src/main.js (lines 5 to 11, and the same
  code in src/application.js) runs its callback, the function that builds
  the scene and calls \<open>render\<close>, once the document is ready. The document's
  side is the HTML standard's ("the end" of parsing): \<open>document.readyState\<close>
  is one of the strings \<open>"loading"\<close>, \<open>"interactive"\<close>, \<open>"complete"\<close>;
  when parsing ends the state becomes \<open>"interactive"\<close>, then the deferred
  scripts run, then \<open>DOMContentLoaded\<close> fires, once, and later the load
  event makes the state \<open>"complete"\<close>; a \<open>setTimeout\<close> callback runs later
  from the event loop. The page state records the ready state, whether
  \<open>DOMContentLoaded\<close> has fired, and counts the registered listeners, the
  pending timers and the runs of the callback; the browser is a step
  relation and the script runs \<open>onReady\<close> in the state the page is in when
  the script is executed: while parsing (\<open>Loading\<close>), as a deferred script
  (\<open>Interactive\<close>, not fired), or as an asynchronous or injected script after
  the event (\<open>Interactive\<close> and fired, or \<open>Complete\<close>).
\<close>

datatype ready_state = Loading | Interactive | Complete

fun readyState :: "ready_state \<Rightarrow> string" where
  "readyState Loading = ''loading''"
| "readyState Interactive = ''interactive''"
| "readyState Complete = ''complete''"

record page =
  ready :: ready_state
  fired :: bool
  listeners :: nat
  timers :: nat
  runs :: nat

text \<open>
  The page when the script is executed, in ready state \<open>r\<close>, with
  \<open>DOMContentLoaded\<close> fired or not: nothing registered, nothing run.
\<close>

definition page_at :: "ready_state \<Rightarrow> bool \<Rightarrow> page" where
  "page_at r f = \<lparr>ready = r, fired = f, listeners = 0, timers = 0, runs = 0\<rparr>"

text \<open>
  \<open>onReady(completed)\<close>: if \<open>document.readyState === "completed"\<close>, queue
  the callback with \<open>setTimeout\<close>, else add it as a \<open>DOMContentLoaded\<close>
  listener.
\<close>

definition onReady :: "page \<Rightarrow> page" where
  "onReady p =
     (if readyState (ready p) = ''completed'' then p\<lparr>timers := timers p + 1\<rparr>
      else p\<lparr>listeners := listeners p + 1\<rparr>)"

text \<open>
  The browser: parsing ends (the state becomes \<open>"interactive"\<close>);
  \<open>DOMContentLoaded\<close> fires once, after that, and calls every listener; the
  load event, after it, completes the document; a pending timer runs its
  callback.
\<close>

inductive page_step :: "page \<Rightarrow> page \<Rightarrow> bool" where
  parse_end: "ready p = Loading \<Longrightarrow> page_step p (p\<lparr>ready := Interactive\<rparr>)"
| dom_content_loaded: "ready p = Interactive \<Longrightarrow> \<not> fired p \<Longrightarrow>
     page_step p (p\<lparr>fired := True, runs := runs p + listeners p\<rparr>)"
| load: "ready p = Interactive \<Longrightarrow> fired p \<Longrightarrow> page_step p (p\<lparr>ready := Complete\<rparr>)"
| timer: "0 < timers p \<Longrightarrow> page_step p (p\<lparr>timers := timers p - 1, runs := runs p + 1\<rparr>)"

code_pred page_step .

text \<open>
  The callback given to \<open>onReady\<close> (lines 151 to 208): take the image data
  of the canvas, build the demo scene and render into the image data, which
  \<open>putImageData\<close> then shows; the model returns that buffer. Reading
  \<open>scrollWidth\<close>/\<open>scrollHeight\<close> is the parameters \<open>w\<close>, \<open>h\<close>;
  \<open>canvas.width = width\<close> only clears a canvas the data was already taken from.
\<close>

definition ready_callback :: "nat \<Rightarrow> nat \<Rightarrow> error + byte list" where
  "ready_callback w h =
     (case getImageData w h of
        Inl e \<Rightarrow> Inl e
      | Inr data \<Rightarrow>
          (case demo_scene w h of
             Inl e \<Rightarrow> Inl e
           | Inr sc \<Rightarrow> render sc data))"

inductive_cases page_stepE: "page_step p p'"

section \<open>Lemmas\<close>

lemma readyState_not_completed [simp]: "readyState r \<noteq> ''completed''"
  by (cases r) simp_all

text \<open>
  Invariants of the runs from a script executed before \<open>DOMContentLoaded\<close>
  fires, and after.
\<close>

definition early_inv :: "page \<Rightarrow> bool" where
  "early_inv p \<longleftrightarrow> timers p = 0 \<and> listeners p = 1 \<and> runs p = (if fired p then 1 else 0) \<and>
     (ready p = Complete \<longrightarrow> fired p)"

definition late_inv :: "page \<Rightarrow> bool" where
  "late_inv p \<longleftrightarrow> timers p = 0 \<and> runs p = 0 \<and> fired p"

lemma page_step_early_inv: "page_step p p' \<Longrightarrow> early_inv p \<Longrightarrow> early_inv p'"
  by (induction rule: page_step.induct) (auto simp: early_inv_def)

lemma page_step_late_inv: "page_step p p' \<Longrightarrow> late_inv p \<Longrightarrow> late_inv p'"
  by (induction rule: page_step.induct) (auto simp: late_inv_def)

lemma page_steps_early_inv: "page_step\<^sup>*\<^sup>* p p' \<Longrightarrow> early_inv p \<Longrightarrow> early_inv p'"
  by (induction rule: rtranclp_induct) (auto intro: page_step_early_inv)

text \<open>
  From a page where the callback is registered as a listener and the event
  has not fired, the callback never runs twice, and it can always still run.
\<close>

lemma early_runs_once:
  assumes "early_inv p0" and "page_step\<^sup>*\<^sup>* p0 p"
  shows "runs p \<le> 1 \<and> (\<exists>p'. page_step\<^sup>*\<^sup>* p p' \<and> runs p' = 1)"
proof -
  have i: "early_inv p" using page_steps_early_inv [OF assms(2,1)] .
  show ?thesis
  proof (cases "fired p")
    case True
    with i show ?thesis by (auto simp: early_inv_def)
  next
    case False
    define q where "q = p\<lparr>ready := Interactive\<rparr>"
    have q: "page_step\<^sup>*\<^sup>* p q"
    proof (cases "ready p")
      case Loading
      then show ?thesis by (auto simp: q_def intro: page_step.parse_end)
    next
      case Interactive
      then have "q = p" by (cases p) (simp add: q_def)
      then show ?thesis by simp
    next
      case Complete
      with False i show ?thesis by (simp add: early_inv_def)
    qed
    have "page_step q (q\<lparr>fired := True, runs := runs q + listeners q\<rparr>)"
      using page_step.dom_content_loaded [of q] False by (simp add: q_def)
    with q False i show ?thesis
      by (auto simp: early_inv_def q_def intro: rtranclp.rtrancl_into_rtrancl)
  qed
qed

section \<open>Properties of the start-up\<close>

text \<open>
  C9: when the script runs while the document is still loading, the
  callback (and so \<open>render\<close>) runs exactly once: it never runs twice, and
  from every state the browser reaches, a state where it has run is
  reachable.
\<close>

theorem onReady_loading_runs_once:
  assumes "page_step\<^sup>*\<^sup>* (onReady (page_at Loading False)) p"
  shows "runs p \<le> 1 \<and> (\<exists>p'. page_step\<^sup>*\<^sup>* p p' \<and> runs p' = 1)"
  using early_runs_once [OF _ assms] by (simp add: early_inv_def onReady_def page_at_def)

theorem onReady_loading_runs_once_witness:
  "\<exists>p'. page_step\<^sup>*\<^sup>* (onReady (page_at Loading False)) p' \<and> runs p' = 1"
  using onReady_loading_runs_once [of "onReady (page_at Loading False)"] by blast

text \<open>
  C10: when the script runs as a deferred script, after parsing (the document
  is \<open>"interactive"\<close>) and before \<open>DOMContentLoaded\<close> fires, the callback
  also runs exactly once.
\<close>

theorem onReady_deferred_runs_once:
  assumes "page_step\<^sup>*\<^sup>* (onReady (page_at Interactive False)) p"
  shows "runs p \<le> 1 \<and> (\<exists>p'. page_step\<^sup>*\<^sup>* p p' \<and> runs p' = 1)"
  using early_runs_once [OF _ assms] by (simp add: early_inv_def onReady_def page_at_def)

theorem onReady_deferred_runs_once_witness:
  "\<exists>p'. page_step\<^sup>*\<^sup>* (onReady (page_at Interactive False)) p' \<and> runs p' = 1"
  using onReady_deferred_runs_once [of "onReady (page_at Interactive False)"] by blast

text \<open>
  C11: when the script runs after \<open>DOMContentLoaded\<close> has fired (an
  asynchronous or injected script; the document is \<open>"interactive"\<close> or
  \<open>"complete"\<close>), the callback never runs: \<open>readyState\<close> is never
  \<open>"completed"\<close>, so the callback is always added as a listener of an event
  that has already fired, and \<open>render\<close> is never called.
\<close>

theorem onReady_late_never_runs:
  assumes "r \<noteq> Loading" and "page_step\<^sup>*\<^sup>* (onReady (page_at r True)) p"
  shows "runs p = 0"
proof -
  have "late_inv (onReady (page_at r True))"
    by (simp add: late_inv_def onReady_def page_at_def)
  with assms(2) have "late_inv p"
    by (induction rule: rtranclp_induct) (auto intro: page_step_late_inv)
  then show ?thesis by (simp add: late_inv_def)
qed

theorem onReady_late_never_runs_witness:
  "Complete \<noteq> Loading \<and> runs (onReady (page_at Complete True)) = 0"
  using onReady_late_never_runs [of Complete "onReady (page_at Complete True)"] by simp

end
