(* ===== verification/Symmetry.thy ===== *)
theory Symmetry
  imports Renderer
begin

text \<open>
  Mirror symmetry of the tracer. \<open>mirror\<close> reflects a point or direction in
  the plane \<open>x = 0\<close>; it is lifted to rays, spheres (the centre moves, the
  material does not) and scenes (camera, lights and objects). Every vector
  operation of src/src/vector.js commutes with it and the dot product is
  invariant, so \<open>intersection\<close>, the search loop, the shadow test, the lights
  loop and the mutually recursive \<open>trace\<close>/\<open>surface\<close> give the same colours
  in the mirrored scene. For a scene that is its own mirror image, the
  renderer then writes equal bytes for the pixels \<open>(x, y)\<close> and
  \<open>(width - 1 - x, y)\<close>: the "full render scenario" of the specification.
\<close>

definition mirror :: "vector \<Rightarrow> vector" where
  "mirror v = Vector (- vx v) (vy v) (vz v)"

definition mirror_ray :: "ray \<Rightarrow> ray" where
  "mirror_ray r = \<lparr>ray_point = mirror (ray_point r), ray_vector = mirror (ray_vector r)\<rparr>"

definition mirror_sphere :: "sphere \<Rightarrow> sphere" where
  "mirror_sphere s = s\<lparr>point := mirror (point s)\<rparr>"

definition mirror_scene :: "scene \<Rightarrow> scene" where
  "mirror_scene sc =
     sc\<lparr>camera := (camera sc)\<lparr>camera_point := mirror (camera_point (camera sc)),
                              camera_vector := mirror (camera_vector (camera sc))\<rparr>,
        lights := map mirror (lights sc),
        objects := map mirror_sphere (objects sc)\<rparr>"

text \<open>
  The specification's render scenario: a \<open>2 \<times> 2\<close> canvas, one sphere
  centred on the camera axis, one light, \<open>lambert = 1\<close>, no specular or
  ambient term.
\<close>

abbreviation axis_scene :: scene where
  "axis_scene \<equiv> \<lparr>width = 2, height = 2,
     camera = \<lparr>camera_point = Vector 0 0 10, fieldOfView = 90, camera_vector = Vector 0 0 0\<rparr>,
     lights = [Vector 0 5 10],
     objects = [\<lparr>point = Vector 0 0 0, radius = 1, color = Vector 155 200 155,
                 specular = 0, lambert = 1, ambient = 0\<rparr>]\<rparr>"

section \<open>The vector operations commute with the mirror\<close>

lemma mirror_components [simp]:
  "vx (mirror v) = - vx v" "vy (mirror v) = vy v" "vz (mirror v) = vz v"
  by (simp_all add: mirror_def)

text \<open>Oriented to move \<open>mirror\<close> outwards, where \<open>dot_mirror\<close> removes it.\<close>

lemma mirror_ops [simp]:
  "add (mirror a) (mirror b) = mirror (add a b)"
  "add3 (mirror a) (mirror b) (mirror c) = mirror (add3 a b c)"
  "subtract (mirror a) (mirror b) = mirror (subtract a b)"
  "scale (mirror a) t = mirror (scale a t)"
  "- mirror a = mirror (- a)"
  "mirror ZERO = ZERO"
  by (simp_all add: vector_eq_iff vec_unfold)

lemma dot_mirror [simp]: "dotProduct (mirror a) (mirror b) = dotProduct a b"
  by (simp add: dotProduct_def)

lemma length_mirror [simp]: "length_vector (mirror v) = length_vector v"
  by (simp add: length_vector_def)

lemma normalize_mirror [simp]: "normalize (mirror v) = mirror (normalize v)"
  by (simp add: normalize_def)

lemma reflect_mirror [simp]: "reflectThrough (mirror v) (mirror n) = mirror (reflectThrough v n)"
  by (simp add: reflectThrough_def)

lemma mirror_mirror [simp]: "mirror (mirror v) = v"
  by (simp add: vector_eq_iff)

lemma mirror_id_iff: "mirror v = v \<longleftrightarrow> vx v = 0"
  by (auto simp: vector_eq_iff)

section \<open>Spheres, the search loop and the shadow test\<close>

lemma mirror_sphere_fields [simp]:
  "point (mirror_sphere s) = mirror (point s)" "radius (mirror_sphere s) = radius s"
  "color (mirror_sphere s) = color s" "specular (mirror_sphere s) = specular s"
  "lambert (mirror_sphere s) = lambert s" "ambient (mirror_sphere s) = ambient s"
  by (simp_all add: mirror_sphere_def)

lemma mirror_ray_fields [simp]:
  "ray_point (mirror_ray r) = mirror (ray_point r)" "ray_vector (mirror_ray r) = mirror (ray_vector r)"
  by (simp_all add: mirror_ray_def)

lemma mirror_ray_fold [simp]:
  "\<lparr>ray_point = mirror p, ray_vector = mirror v\<rparr> = mirror_ray \<lparr>ray_point = p, ray_vector = v\<rparr>"
  by (simp add: mirror_ray_def)

lemma mirror_scene_fields [simp]:
  "lights (mirror_scene sc) = map mirror (lights sc)"
  "objects (mirror_scene sc) = map mirror_sphere (objects sc)"
  "width (mirror_scene sc) = width sc" "height (mirror_scene sc) = height sc"
  by (simp_all add: mirror_scene_def)

lemma intersection_mirror [simp]: "intersection (mirror_sphere s) (mirror_ray r) = intersection s r"
  by (simp add: intersection_def Let_def)

lemma normal_mirror [simp]: "normal (mirror_sphere s) (mirror p) = mirror (normal s p)"
  by (simp add: normal_def)

lemma ray_at_mirror [simp]: "ray_at (mirror_ray r) t = mirror (ray_at r t)"
  by (simp add: ray_at_def)

lemma closer_map [simp]: "closer d (map_option (apsnd f) acc) = closer d acc"
  by (cases acc) auto

text \<open>The search loop over objects renamed by \<open>f\<close>, when \<open>f\<close> keeps the hit distance.\<close>

lemma closest_loop_map:
  assumes "\<And>obj. hit' (f obj) = hit obj"
  shows "closest_loop hit' (map f objs) (map_option (apsnd f) acc) =
         map_option (apsnd f) (closest_loop hit objs acc)"
proof (induction objs arbitrary: acc)
  case Nil
  then show ?case by simp
next
  case (Cons obj objs)
  have "(if closer d acc then Some (d, f obj) else map_option (apsnd f) acc) =
        map_option (apsnd f) (if closer d acc then Some (d, obj) else acc)" for d
    by simp
  with Cons show ?case by (simp add: assms split: option.split)
qed

lemma intersectScene_mirror:
  "intersectScene (mirror_ray r) (mirror_scene sc) = map_option (apsnd mirror_sphere) (intersectScene r sc)"
  using closest_loop_map [of "\<lambda>obj. intersection obj (mirror_ray r)" mirror_sphere
      "\<lambda>obj. intersection obj r" "objects sc" None]
  by (simp add: intersectScene_def)

lemma shadow_ray_mirror [simp]: "shadow_ray (mirror p) (mirror l) = mirror_ray (shadow_ray p l)"
  by (simp add: shadow_ray_def)

lemma isLightVisible_mirror [simp]:
  "isLightVisible (mirror p) (mirror_scene sc) (mirror l) = isLightVisible p sc l"
  by (simp add: isLightVisible_def intersectScene_mirror split: option.split)

lemma lambert_loop_mirror:
  "lambert_loop (mirror_scene sc) (mirror p) (mirror n) (map mirror ls) acc = lambert_loop sc p n ls acc"
  by (induction ls arbitrary: acc) (simp_all add: Let_def)

section \<open>The tracer commutes with the mirror\<close>

lemma trace_surface_mirror:
  "trace (mirror_ray r) (mirror_scene sc) depth = trace r sc depth"
  "surface (mirror_ray r) (mirror_scene sc) (mirror_sphere obj) (mirror p) (mirror n) depth =
   surface r sc obj p n depth"
proof (induction r sc depth and r sc obj p n depth rule: trace_surface.induct)
  case (1 r sc depth)
  show ?case
  proof (cases "intersectScene r sc")
    case None
    then show ?thesis
      by (simp add: trace.simps [of "mirror_ray r"] trace.simps [of r] intersectScene_mirror)
  next
    case (Some h)
    obtain d obj where h: "h = (d, obj)" by (cases h)
    show ?thesis
      using "1.IH" [OF _ Some [unfolded h] refl] Some h
      by (simp add: trace.simps [of "mirror_ray r"] trace.simps [of r] intersectScene_mirror Let_def)
  qed
next
  case (2 r sc obj p n depth)
  show ?case
    using "2.IH"
    by (simp add: surface.simps [of "mirror_ray r"] surface.simps [of r] lambert_loop_mirror Let_def
        split: option.split)
qed

section \<open>The camera frame of a symmetric scene\<close>

lemma mirror_scene_camera:
  "mirror_scene sc = sc \<Longrightarrow>
   vx (camera_point (camera sc)) = 0 \<and> vx (camera_vector (camera sc)) = 0"
  unfolding mirror_scene_def
  by (metis camera.select_convs(1,3) camera.surjective camera.update_convs(1,3) mirror_id_iff
      scene.select_convs(3) scene.surjective scene.update_convs(3,4,5))

lemma normalize_components [simp]:
  "vx (normalize v) = vx v * (1 / length_vector v)" "vy (normalize v) = vy v * (1 / length_vector v)"
  "vz (normalize v) = vz v * (1 / length_vector v)"
  by (simp_all add: normalize_def)

text \<open>
  With camera point and look-at point in the plane \<open>x = 0\<close>, the eye and up
  vectors lie in that plane and the right vector is perpendicular to it.
\<close>

lemma symmetric_frame:
  assumes "vx (camera_point (camera sc)) = 0" and "vx (camera_vector (camera sc)) = 0"
  shows "vx (eyeVector (render_setup sc)) = 0 \<and> vy (right (render_setup sc)) = 0 \<and>
         vz (right (render_setup sc)) = 0 \<and> vx (up (render_setup sc)) = 0"
  using assms by (simp add: render_setup_def Let_def crossProduct_def subtract_def UP_def)

lemma pixel_ray_mirror:
  assumes "mirror_scene sc = sc" and "1 < width sc" and "x < width sc"
  shows "pixel_ray sc (render_setup sc) (width sc - 1 - x) y =
         mirror_ray (pixel_ray sc (render_setup sc) x y)"
proof -
  define fr where "fr = render_setup sc"
  have c: "vx (camera_point (camera sc)) = 0" "vx (camera_vector (camera sc)) = 0"
    using mirror_scene_camera [OF assms(1)] by simp_all
  have f: "vx (eyeVector fr) = 0" "vy (right fr) = 0" "vz (right fr) = 0" "vx (up fr) = 0"
    using symmetric_frame [OF c] by (simp_all add: fr_def)
  have w: "real (width sc) - 1 \<noteq> 0" using assms(2) by simp
  obtain pw where pw: "pixelWidth fr = Some pw"
    and pwd: "pw = halfWidth fr * 2 / (real (width sc) - 1)"
    using w by (simp add: fr_def render_setup_def Let_def)
  have a: "real (width sc - 1 - x) * pw - halfWidth fr = - (real x * pw - halfWidth fr)"
    using assms(2,3) w by (simp add: pwd of_nat_diff field_simps)
  define yc where "yc = (case pixelHeight fr of None \<Rightarrow> ZERO
                           | Some ph \<Rightarrow> scale (up fr) (real y * ph - halfHeight fr))"
  have yc: "vx yc = 0" by (cases "pixelHeight fr") (simp_all add: yc_def f vec_unfold)
  have "add3 (eyeVector fr) (scale (right fr) (real (width sc - 1 - x) * pw - halfWidth fr)) yc =
        mirror (add3 (eyeVector fr) (scale (right fr) (real x * pw - halfWidth fr)) yc)"
    unfolding a by (simp add: vector_eq_iff add3_def f yc algebra_simps)
  moreover have "mirror (camera_point (camera sc)) = camera_point (camera sc)"
    using c by (simp add: mirror_id_iff)
  ultimately show ?thesis
    by (simp add: pixel_ray_def Let_def mirror_ray_def pw fr_def [symmetric] yc_def [symmetric])
qed

section \<open>Properties of the symmetry\<close>

text \<open>
  C16: the tracer commutes with the mirror in the plane \<open>x = 0\<close>: tracing
  the mirrored ray in the mirrored scene gives the same colour, at every
  depth.
\<close>

theorem trace_mirror: "trace (mirror_ray r) (mirror_scene sc) depth = trace r sc depth"
  by (rule trace_surface_mirror(1))

text \<open>
  C17: a scene that is its own mirror image (camera, lights and spheres in
  the plane \<open>x = 0\<close>) renders mirror-symmetrically: the pixels \<open>(x, y)\<close>
  and \<open>(width - 1 - x, y)\<close> get the same bytes. On a \<open>2 \<times> 2\<close> canvas this is
  the specification's render scenario: the two pixels of a row are equal.
\<close>

theorem render_mirror_symmetric:
  assumes "mirror_scene sc = sc" and "1 < width sc" and "x < width sc" and "y < height sc"
    and "c < 4" and "length data = width sc * height sc * 4" and "render sc data = Inr buf"
  shows "buf ! (pixel_index (width sc) (width sc - 1 - x) y + c) =
         buf ! (pixel_index (width sc) x y + c)"
proof -
  have "trace (pixel_ray sc (render_setup sc) (width sc - 1 - x) y) sc 0 =
        trace (pixel_ray sc (render_setup sc) x y) sc 0"
    unfolding pixel_ray_mirror [OF assms(1-3)]
    using trace_surface_mirror(1) [of "pixel_ray sc (render_setup sc) x y" sc 0] assms(1) by simp
  then have "pixel_bytes sc (render_setup sc) (width sc - 1 - x) y = pixel_bytes sc (render_setup sc) x y"
    by (simp only: pixel_bytes_def)
  moreover have "width sc - 1 - x < width sc" using assms(2) by simp
  ultimately show ?thesis
    using render_byte [OF assms(7,6) _ assms(4,5)] assms(3) by metis
qed

theorem render_mirror_symmetric_witness:
  "\<exists>buf. render axis_scene (replicate 16 0) = Inr buf \<and>
     buf ! 4 = buf ! 0 \<and> buf ! 5 = buf ! 1 \<and> buf ! 6 = buf ! 2"
proof -
  have m: "mirror_scene axis_scene = axis_scene" by (simp add: mirror_scene_def mirror_def)
  obtain buf where r: "render axis_scene (replicate 16 0) = Inr buf"
    using render_rows_nth [of "[0..<2]" axis_scene "render_setup axis_scene" "replicate 16 0"]
    by (auto simp: render_def)
  have "buf ! 4 = buf ! 0"
    using render_mirror_symmetric [of axis_scene 0 0 0 "replicate 16 0" buf] m r
    by (simp add: pixel_index_def)
  moreover have "buf ! 5 = buf ! 1"
    using render_mirror_symmetric [of axis_scene 0 0 1 "replicate 16 0" buf] m r
    by (simp add: pixel_index_def)
  moreover have "buf ! 6 = buf ! 2"
    using render_mirror_symmetric [of axis_scene 0 0 2 "replicate 16 0" buf] m r
    by (simp add: pixel_index_def numeral_2_eq_2)
  ultimately show ?thesis using r by blast
qed

end
