(* ===== verification/Schedule.thy ===== *)
theory Schedule
  imports Renderer
begin

text \<open>
  Order independence of the pixel loop. The body of the loops of
  \<open>render\<close> (src/src/main.js, lines 133 to 144, \<open>render_pixel\<close>) reads only
  the immutable scene and writes only the four bytes of its own pixel. The
  specification (section 5) asks every reimplementation, parallel ones
  included, to produce the same bytes. \<open>render_pixels\<close> runs the body over
  any list of pixels, in the list's order, a schedule; the code's nested
  loops are one schedule, and every schedule that visits every pixel of the
  canvas, in any order and with any repetitions, writes the same buffer.
\<close>

fun render_pixels ::
  "scene \<Rightarrow> camera_frame \<Rightarrow> (nat \<times> nat) list \<Rightarrow> byte list \<Rightarrow> error + byte list" where
  "render_pixels sc fr [] buf = Inr buf"
| "render_pixels sc fr ((x, y) # ps) buf =
     (case render_pixel sc fr x y buf of
        Inl e \<Rightarrow> Inl e
      | Inr buf' \<Rightarrow> render_pixels sc fr ps buf')"

text \<open>The pixels of the canvas in the code's order: \<open>x\<close> outer, \<open>y\<close> inner.\<close>

definition canvas_pixels :: "scene \<Rightarrow> (nat \<times> nat) list" where
  "canvas_pixels sc = [(x, y). x \<leftarrow> [0..<width sc], y \<leftarrow> [0..<height sc]]"

section \<open>Lemmas\<close>

lemma set_canvas_pixels: "set (canvas_pixels sc) = {p. fst p < width sc \<and> snd p < height sc}"
  by (auto simp: canvas_pixels_def)

text \<open>A schedule writes, at every byte, the traced byte if its pixel was scheduled.\<close>

lemma render_pixels_nth:
  assumes "\<forall>p \<in> set ps. fst p < width sc"
  shows "\<exists>buf'. render_pixels sc fr ps buf = Inr buf' \<and> length buf' = length buf \<and>
     (\<forall>j < length buf. buf' ! j =
        (if owner (width sc) j \<in> set ps
         then pixel_bytes sc fr (fst (owner (width sc) j)) (snd (owner (width sc) j)) ! (j mod 4)
         else buf ! j))"
  using assms
proof (induction ps arbitrary: buf)
  case Nil
  then show ?case by simp
next
  case (Cons p ps)
  obtain x y where p: "p = (x, y)" by (cases p)
  with Cons.prems have x: "x < width sc" by simp
  obtain b1 where b1: "render_pixel sc fr x y buf = Inr b1" "length b1 = length buf"
    and n1: "\<forall>j < length buf. b1 ! j =
        (if j div 4 = x + y * width sc then pixel_bytes sc fr x y ! (j mod 4) else buf ! j)"
    using render_pixel_nth by blast
  obtain b2 where b2: "render_pixels sc fr ps b1 = Inr b2" "length b2 = length b1"
    and n2: "\<forall>j < length b1. b2 ! j =
        (if owner (width sc) j \<in> set ps
         then pixel_bytes sc fr (fst (owner (width sc) j)) (snd (owner (width sc) j)) ! (j mod 4)
         else b1 ! j)"
    using Cons.IH [of b1] Cons.prems by auto
  have o: "j div 4 = x + y * width sc \<longleftrightarrow> owner (width sc) j = (x, y)" for j
    using owner_eq_iff [OF x] by simp
  show ?case
    using b1 b2 n1 n2 by (auto simp: p o)
qed

section \<open>Properties of the schedules\<close>

text \<open>
  C5: the order of the pixel loop does not matter: running the loop body
  over any list of pixels that covers exactly the canvas, in any order and
  with any repetitions (a transposed loop, a parallel schedule), writes the
  buffer \<open>render\<close> writes.
\<close>

theorem render_any_order:
  assumes "set ps = set (canvas_pixels sc)"
  shows "render_pixels sc (render_setup sc) ps data = render sc data"
proof -
  have "\<forall>p \<in> set ps. fst p < width sc" using assms by (simp add: set_canvas_pixels)
  from render_pixels_nth [OF this, of "render_setup sc" data] obtain b1 where
    b1: "render_pixels sc (render_setup sc) ps data = Inr b1" "length b1 = length data"
    and n1: "\<forall>j < length data. b1 ! j =
        (if owner (width sc) j \<in> set ps
         then pixel_bytes sc (render_setup sc) (fst (owner (width sc) j)) (snd (owner (width sc) j)) ! (j mod 4)
         else data ! j)" by blast
  obtain b2 where b2: "render sc data = Inr b2" "length b2 = length data"
    and n2: "\<forall>j < length data. b2 ! j =
        (if j div 4 mod width sc \<in> set [0..<width sc] \<and> j div 4 div width sc < height sc
         then pixel_bytes sc (render_setup sc) (j div 4 mod width sc) (j div 4 div width sc) ! (j mod 4)
         else data ! j)"
    using render_rows_nth [of "[0..<width sc]" sc "render_setup sc" data] by (auto simp: render_def)
  have "b1 = b2"
  proof (rule nth_equalityI)
    show "length b1 = length b2" using b1 b2 by simp
  next
    fix j assume "j < length b1"
    with n1 n2 b1 show "b1 ! j = b2 ! j"
      by (simp add: assms set_canvas_pixels owner_def)
  qed
  with b1 b2 show ?thesis by simp
qed

theorem render_any_order_witness:
  "render_pixels occluder_scene (render_setup occluder_scene) [(0, 0), (1, 0), (0, 1), (1, 1)]
     (replicate 16 0) = render occluder_scene (replicate 16 0)"
proof -
  have "set [(0::nat, 0::nat), (1, 0), (0, 1), (1, 1)] = set (canvas_pixels occluder_scene)"
    by (auto simp: canvas_pixels_def numeral_2_eq_2)
  then show ?thesis by (rule render_any_order)
qed

end
