(* ===== verification/Spec2Isabelle.thy ===== *)
theory Spec2Isabelle
  imports Application RenderLoop PageStartup Symmetry Schedule
begin

text \<open>
  \<^bold>\<open>A verified model of seaneshbaugh/ray-tracer-demo.\<close>

  \<^bold>\<open>The program.\<close> A recursive (Whitted-style) ray tracer in JavaScript.
  src/src/vector.js is the \<open>Vector\<close> value class; src/src/shape.js an
  abstract \<open>Shape\<close> base; src/src/sphere.js the \<open>Sphere\<close> class
  (constructor with checks, \<open>intersection\<close>, \<open>normal\<close>); src/src/main.js
  holds \<open>intersectScene\<close> (nearest hit), \<open>isLightVisible\<close> (shadow
  test), \<open>surface\<close> and \<open>trace\<close> (mutually recursive shading with a depth
  cut-off), \<open>render\<close> (camera rays per pixel, bytes into an RGBA buffer)
  and the page start-up that builds the demo scene. src/application.js is
  an older single-file build of the same program, and src/dist/bundle.js
  the webpack output of src/src. Control flows
  \<open>render \<rightarrow> trace \<rightarrow> intersectScene \<rightarrow> surface \<rightarrow> (isLightVisible \<rightarrow>
  intersectScene, trace at depth + 1)\<close>; the scene is read-only.

  \<^bold>\<open>The theories.\<close>
  \<^item> \<open>Prelude\<close>: the error type (one constructor per \<open>throw\<close>), the byte
    type, JavaScript's \<open>||\<close> on numbers and objects, shared arithmetic.
  \<^item> \<open>Vector\<close>: the class as a datatype of three reals with one function
    per method (\<open>length\<close> is \<open>length_vector\<close>), made an additive group
    whose operations are \<open>add\<close>, \<open>subtract\<close>, \<open>ZERO\<close>; dot-product
    algebra, Lagrange's identity, Cauchy-Schwarz; properties of
    \<open>normalize\<close>, \<open>crossProduct\<close> and \<open>reflectThrough\<close>.
  \<^item> \<open>Sphere\<close>: rays, \<open>Shape_new\<close> (the \<open>new.target\<close> check),
    the \<open>sphere\<close> record, \<open>Sphere_new\<close> returning \<open>error + sphere\<close>,
    \<open>intersection\<close> and \<open>normal\<close>; \<open>intersection\<close> is shown to be the
    least root of the surface equation along the ray.
  \<^item> \<open>Scene\<close>: camera and scene records and the demo scene of
    \<open>onReady\<close> with its three constructor calls.
  \<^item> \<open>Intersector\<close>: \<open>closest_loop\<close> is the search loop over any object
    type given its \<open>intersection\<close> method (the Shape capability), with
    \<open>None\<close> for the initial \<open>[Infinity, null]\<close>; it is proved equal to
    the reference function \<open>nearest\<close>, which is characterised by
    \<open>first_nearest\<close> (least distance, first on a tie); the shadow test.
  \<^item> \<open>Tracer\<close>: \<open>lambert_loop\<close> (the lights loop with its
    \<open>continue\<close>) and the mutual \<open>function\<close> \<open>trace\<close>/\<open>surface\<close>,
    \<open>undefined\<close> being \<open>None\<close>; termination by a measure on the depth.
  \<^item> \<open>Renderer\<close>: the camera frame, per-pixel rays, the nested loops
    \<open>render_rows\<close> (over x) and \<open>render_column\<close> (over y), the pixel
    stores; the buffer is passed in and returned.
  \<^item> \<open>RenderLoop\<close>: the same two loops as a small-step machine
    (\<open>render_step\<close>, an \<open>inductive\<close> relation over counters and buffer,
    one rule per loop test and per body outcome), proved deterministic,
    terminating (a variant counting the iterations left), never stuck, with
    its loop invariant, and refining \<open>render\<close>.
  \<^item> \<open>PageStartup\<close>: \<open>onReady\<close> (src/src/main.js, and the same code in
    src/application.js) against the HTML load sequence, \<open>page_step\<close>:
    end of parsing (\<open>"interactive"\<close>, when deferred scripts run),
    \<open>DOMContentLoaded\<close> (fired once, after that), load, timers;
    \<open>document.readyState\<close> and the event loop are modelled from the HTML
    standard; the callback
    \<open>ready_callback\<close> (image data, demo scene, \<open>render\<close>), with
    \<open>getImageData\<close> from the HTML standard.
  \<^item> \<open>Symmetry\<close>: the mirror in the plane \<open>x = 0\<close> on vectors, rays,
    spheres and scenes (specification-level definitions, not code); every
    vector operation commutes with it, hence the whole tracer does, and a
    mirror-symmetric scene renders mirror-symmetric bytes.
  \<^item> \<open>Schedule\<close>: the pixel loop's body run over an arbitrary list of
    pixels (\<open>render_pixels\<close>, a specification-level schedule); every
    schedule covering the canvas writes the buffer \<open>render\<close> writes.
  \<^item> \<open>Application\<close>: the legacy build's functions and demo scene, proved
    to compute what the modular build computes.

  \<^bold>\<open>What the lemmas show.\<close> \<open>trace\<close> is total and defined exactly at
  depths 0 to 3; \<open>intersectScene\<close> returns the first least hit;
  \<open>render\<close> never throws and writes, on a buffer of the canvas size,
  exactly the row-major image of the traced colours, and the buffer offset
  \<open>pixel_index\<close> and its decoding are inverse; the step-by-step loops end
  with the same buffer, keep their invariant in every reachable state and
  always finish; the callback of \<open>onReady\<close> runs exactly once when the
  script runs while the page is parsed or as a deferred script, and never
  when it runs after \<open>DOMContentLoaded\<close> has fired; the start-up
  callback puts the traced image on every non-empty canvas and throws only
  on an empty one; tracing commutes with the mirror in the plane
  \<open>x = 0\<close>, so the specification's 2 by 2 scenario renders equal bytes for
  the two pixels of a row; the order in which pixels are rendered does not
  matter (any schedule covering the canvas, repetitions included, gives
  \<open>render\<close>'s buffer); between two facing mirrors the recursion shades
  exactly the surfaces at depths 0 to 3, so each ambient term is counted
  four times; the lights loop is a sum
  of positive cosines over visible lights, bounded by the number of lights;
  colours stay non-negative for non-negative materials but are not bounded
  by 255; the shadow test is characterised and shown to let a sphere beyond
  the light cast a shadow; the bytes \<open>render\<close> stores for a pixel are its
  traced channels clamped to \<open>[0, 255]\<close> and rounded to within one half,
  and an opaque alpha; a ray starting inside a sphere gets a negative
  distance, and a hit behind the ray origin wins the nearest-hit search;
  the demo scene renders without an exception at every canvas size; the
  sphere constructor's errors and defaults;
  the vector identities the tracer relies on. The witnesses evaluate the
  model by \<open>simp\<close> on small scenes (a unit sphere seen along the z axis,
  chosen so that every square root is of a perfect square).

  \<^bold>\<open>Findings made precise.\<close> \<open>reflectThrough\<close> returns the negated
  mirror reflection; zero coefficients are replaced by defaults in the
  \<open>Sphere\<close> constructor (so the two builds' demo scenes differ); a sphere
  beyond the light shadows the point; objects behind the camera are drawn,
  since negative distances are not filtered; \<open>onReady\<close> tests
  \<open>readyState\<close> against \<open>"completed"\<close>, a value it never takes, so a
  script run after \<open>DOMContentLoaded\<close> has fired never renders; on an empty canvas
  \<open>getImageData\<close> throws before anything is rendered; the image is drawn
  upside down; the
  buffer index is ordinary row-major order.

  \<^bold>\<open>Modelling choices and bounds.\<close> Numbers are reals: IEEE rounding,
  NaN and \<open>Infinity\<close> are not modelled, except that \<open>Infinity\<close> as the
  "no hit" distance is \<open>None\<close>, and the pixel steps of a canvas one
  pixel wide or high: there the code divides by zero, \<open>pixelWidth\<close> (or
  \<open>pixelHeight\<close>) is \<open>Infinity\<close>, the only pixel index 0 gives
  \<open>0 * Infinity = NaN\<close>, and \<open>new Vector\<close> turns NaN into 0 (its
  \<open>x || 0\<close>), so the offset is the zero vector and the ray is the centre
  ray; the model's step is \<open>None\<close> and its offset \<open>ZERO\<close>. HOL's
  \<open>x / 0 = 0\<close> is otherwise left where JavaScript would produce NaN
  (normalising the zero vector); the lemmas that meet such a division
  assume a non-zero vector there. The recursion depth bound is the program's own constant 3; no fuel
  is needed, as the depth measure makes \<open>trace\<close> total. Typed-array stores
  (ToUint8Clamp, out-of-bounds stores ignored) come from the ECMAScript
  specification, and the document's load sequence and \<open>getImageData\<close>
  from the HTML standard.
  The render loops' machine resets \<open>y\<close> when \<open>x\<close> advances rather than
  after the outer test; \<open>y\<close> is dead there, so the runs agree. Not
  modelled: the DOM calls of the start-up callback other than
  \<open>getImageData\<close> (\<open>getElementById\<close>, \<open>getContext\<close>, the canvas
  size assignments and \<open>putImageData\<close>, which only display the buffer
  the model returns; the canvas size is a parameter), the webpack bundle src/dist/bundle.js (generated
  from src/src), and the legacy build's copy of the Vector class, which is
  textually the same as src/src/vector.js and shares its model.
\<close>

section \<open>Properties across components\<close>

text \<open>
  C7: on a canvas of any non-zero size, the start-up callback builds the demo
  scene without an exception and puts on the canvas a buffer of
  \<open>width * height * 4\<close> bytes whose byte \<open>i\<close> is channel \<open>i mod 4\<close> of
  the colour traced for the pixel that owns it.
\<close>

lemma demo_scene_size:
  "\<exists>sc. demo_scene w h = Inr sc \<and> width sc = w \<and> height sc = h"
  by (simp add: demo_scene_def demo_objects_def Sphere_new_def Shape_new_def Let_def)

theorem demo_render_ok:
  assumes "0 < w" and "0 < h"
  shows "\<exists>sc buf. demo_scene w h = Inr sc \<and> ready_callback w h = Inr buf \<and>
     length buf = w * h * 4 \<and>
     (\<forall>i < w * h * 4. buf ! i =
        pixel_bytes sc (render_setup sc) (fst (owner w i)) (snd (owner w i)) ! (i mod 4))"
proof -
  obtain sc where sc: "demo_scene w h = Inr sc" and wh: "width sc = w" "height sc = h"
    using demo_scene_size by blast
  define data :: "byte list" where "data = replicate (w * h * 4) 0"
  have d: "getImageData w h = Inr data" using assms by (simp add: getImageData_def data_def)
  obtain buf where r: "render sc data = Inr buf" and l: "length buf = length data"
    and n: "\<forall>j < length data. buf ! j =
        (if j div 4 mod width sc \<in> set [0..<width sc] \<and> j div 4 div width sc < height sc
         then pixel_bytes sc (render_setup sc) (j div 4 mod width sc) (j div 4 div width sc) ! (j mod 4)
         else data ! j)"
    using render_rows_nth [of "[0..<width sc]" sc "render_setup sc" data] by (auto simp: render_def)
  have "\<forall>i < w * h * 4. buf ! i =
      pixel_bytes sc (render_setup sc) (fst (owner w i)) (snd (owner w i)) ! (i mod 4)"
    using n owner_in_frame [of _ w h] by (auto simp: wh data_def owner_def)
  moreover have "ready_callback w h = Inr buf" by (simp add: ready_callback_def d sc r)
  ultimately show ?thesis using sc l by (auto simp: data_def)
qed

theorem demo_render_ok_witness:
  "\<exists>sc buf. demo_scene 1 1 = Inr sc \<and> ready_callback 1 1 = Inr buf \<and> length buf = 4"
  using demo_render_ok [of 1 1] by auto

text \<open>
  C8: the start-up callback fails exactly on an empty canvas (zero width or
  height, e.g. a hidden element): \<open>getImageData\<close> then throws an
  \<open>IndexSizeError\<close> before anything is rendered; otherwise it never throws.
\<close>

theorem ready_callback_fails_iff:
  "ready_callback w h = Inl e \<longleftrightarrow> (w = 0 \<or> h = 0) \<and> e = IndexSizeError"
proof (cases "w = 0 \<or> h = 0")
  case True
  then show ?thesis by (auto simp: ready_callback_def getImageData_def)
next
  case False
  obtain sc where sc: "demo_scene w h = Inr sc" using demo_scene_size by blast
  obtain buf where "render sc (replicate (w * h * 4) 0) = Inr buf"
    using render_rows_nth [of "[0..<width sc]" sc "render_setup sc"] by (auto simp: render_def)
  with False sc show ?thesis by (simp add: ready_callback_def getImageData_def)
qed

end
